theory Spec2Isabelle
  imports Main
begin

section \<open>Position mapper\<close>

text \<open>
  The class method \<open>getRowColumnPosition\<close> of the first source file (lines 94 to 118)
  turns an absolute character offset into a zero-based line and column. Offsets are the non-negative
  integers the parser stores in \<open>range[0]\<close>; a source text is a list of characters.
\<close>

datatype error = TypeError

record Position =
  line :: nat
  column :: int

text \<open>
  The loop \<open>while ((match = regEx.exec(textBefore)) != null) matches.push(match)\<close> with the
  global expression \<open>\r?\n\<close>: every match, left to right, as its \<open>index\<close> and its text
  \<open>match[0]\<close>. At a carriage return followed by a line feed the match is both characters;
  at a line feed alone it is that character.
\<close>

fun lineReturnMatches :: "nat \<Rightarrow> string \<Rightarrow> (nat \<times> string) list" where
  "lineReturnMatches i [] = []"
| "lineReturnMatches i [c] = (if c = CHR 0x0A then [(i, [c])] else [])"
| "lineReturnMatches i (c # d # cs) =
     (if c = CHR 0x0D \<and> d = CHR 0x0A then (i, [c, d]) # lineReturnMatches (i + 2) cs
      else if c = CHR 0x0A then (i, [c]) # lineReturnMatches (i + 1) (d # cs)
      else lineReturnMatches (i + 1) (d # cs))"

text \<open>
  \<open>text.substring(0, absolutePosition)\<close> is \<open>take\<close>. The source reads
  \<open>matches[matches.length - 1]\<close> and then its \<open>index\<close>: on an empty match list the element is
  \<open>undefined\<close> and reading \<open>index\<close> raises a TypeError.
\<close>

definition getRowColumnPosition :: "string \<Rightarrow> nat \<Rightarrow> error + Position" where
  "getRowColumnPosition text absolutePosition =
     (let textBefore = take absolutePosition text;
          matches = lineReturnMatches 0 textBefore
      in case matches of
           [] \<Rightarrow> Inl TypeError
         | _ # _ \<Rightarrow>
             (let lastLineReturn = last matches;
                  afterLastLineReturn = fst lastLineReturn + length (snd lastLineReturn)
              in Inr \<lparr>line = length matches,
                      column = int absolutePosition - int afterLastLineReturn\<rparr>))"

text \<open>
  The number of line terminators strictly before an offset (every match of \<open>\r?\n\<close> ends
  in one line feed), and the offset that follows the last of them.
\<close>

definition terminatorsBefore :: "string \<Rightarrow> nat \<Rightarrow> nat" where
  "terminatorsBefore text absoluteOffset =
     length (filter (\<lambda>c. c = CHR 0x0A) (take absoluteOffset text))"

definition afterLastTerminator :: "string \<Rightarrow> nat \<Rightarrow> nat" where
  "afterLastTerminator text absoluteOffset =
     length (take absoluteOffset text)
       - length (takeWhile (\<lambda>c. c \<noteq> CHR 0x0A) (rev (take absoluteOffset text)))"

text \<open>
  Modelled from the spec: the position mapper \<open>resolve\<close> as the specification describes
  it, for the comparison with the method above. The line is the number of line terminators
  strictly before the offset; the column is the offset minus the offset that follows the
  last of them, or minus 0 when there is none.
\<close>

definition resolve_spec :: "string \<Rightarrow> nat \<Rightarrow> Position" where
  "resolve_spec text absoluteOffset =
     \<lparr>line = terminatorsBefore text absoluteOffset,
      column = (if terminatorsBefore text absoluteOffset = 0 then int absoluteOffset
                else int absoluteOffset - int (afterLastTerminator text absoluteOffset))\<rparr>"

section \<open>The parsed document\<close>

text \<open>
  The second source file (the class \<open>CloudformationYaml\<close> with \<open>checkYaml\<close>) works on the
  tree the YAML parser returns. Its enumeration \<open>NodeTypes\<close> and its interface \<open>Node\<close> are
  not among the sources; the types below follow the fields the code reads. A node's \<open>type\<close>
  is the name the parser gives its syntactic form: the code names \<open>PLAIN\<close> and
  \<open>QUOTE_DOUBLE\<close> among the scalars, \<open>MAP\<close> and \<open>FLOW_SEQ\<close> among the collections, and
  \<open>PAIR\<close> for a map entry; the parser's other forms (single-quoted and block scalars, flow
  maps, block sequences) are the remaining constructors. Every node has an optional
  \<open>tag\<close> and the offset \<open>range[0]\<close> where it starts; a pair has its \<open>stringKey\<close>, the
  offset of its key node and a value that may be missing (\<open>null\<close>). A scalar is given
  with its value as a string, as the code reads it (\<open>value as string\<close>).
\<close>

datatype ScalarTypes = PLAIN | QUOTE_DOUBLE | QUOTE_SINGLE | BLOCK_FOLDED | BLOCK_LITERAL

datatype CollectionTypes = MAP | FLOW_MAP | SEQ | FLOW_SEQ

datatype Node =
    Scalar ScalarTypes "string option" "string option" nat string
  | Collection CollectionTypes "string option" nat "Node list"
  | Pair "string option" string nat "Node option"

text \<open>
  \<open>Scalar type tag stringKey range0 value\<close>, \<open>Collection type tag range0 items\<close> and
  \<open>Pair tag stringKey keyRange0 value\<close>. A scalar's \<open>stringKey\<close> is the key name it is
  read under (see \<open>getNodeValueIfPair\<close>); the parser leaves it undefined.
\<close>

text \<open>The \<open>tag\<close> property of a node.\<close>

fun tagOf :: "Node \<Rightarrow> string option" where
  "tagOf (Scalar ty tg sk r v) = tg"
| "tagOf (Collection ty tg r its) = tg"
| "tagOf (Pair tg k kr v) = tg"

text \<open>JavaScript truthiness of an optional string: \<open>undefined\<close> and \<open>''\<close> are falsy.\<close>

definition truthy :: "string option \<Rightarrow> bool" where
  "truthy s = (s \<noteq> None \<and> s \<noteq> Some [])"

text \<open>\<open>if (!item.tag) item.tag = tag\<close>.\<close>

fun setTagIfUnset :: "string option \<Rightarrow> Node \<Rightarrow> Node" where
  "setTagIfUnset t (Scalar ty tg sk r v) = Scalar ty (if truthy tg then tg else t) sk r v"
| "setTagIfUnset t (Collection ty tg r its) = Collection ty (if truthy tg then tg else t) r its"
| "setTagIfUnset t (Pair tg k kr v) = Pair (if truthy tg then tg else t) k kr v"

text \<open>
  Modelled from the spec: the context in which \<open>getNodeValueIfPair\<close> hands out the value
  of a pair (the specification's "tag context (inherited or key name)"): the value
  inherits the pair's tag when it has none of its own, and a scalar value carries the pair's
  key name as \<open>stringKey\<close>.
\<close>

fun inPairContext :: "string option \<Rightarrow> string \<Rightarrow> Node \<Rightarrow> Node" where
  "inPairContext t k (Scalar ty tg sk r v) = Scalar ty (if truthy tg then tg else t) (Some k) r v"
| "inPairContext t k (Collection ty tg r its) = Collection ty (if truthy tg then tg else t) r its"
| "inPairContext t k (Pair tg k' kr v) = Pair tg k' kr v"

text \<open>
  Modelled from the spec: \<open>getNodeValueIfPair\<close> of \<open>common/Yaml\<close>, which is not among the
  sources. For a pair it is the pair's value node, in the pair's context, and \<open>null\<close> when
  the pair has no value; any other node is returned as it is.
\<close>

fun getNodeValueIfPair :: "Node \<Rightarrow> Node option" where
  "getNodeValueIfPair (Pair tg k kr v) = map_option (inPairContext tg k) v"
| "getNodeValueIfPair (Scalar ty tg sk r v) = Some (Scalar ty tg sk r v)"
| "getNodeValueIfPair (Collection ty tg r its) = Some (Collection ty tg r its)"

section \<open>Reference extractor\<close>

text \<open>
  Modelled from the spec: the enumeration \<open>ReferenceTypes\<close> of \<open>common/ReferenceTypes\<close>,
  which is not among the sources: the six kinds of reference. The code names \<open>REF\<close>, \<open>SUB\<close>
  and \<open>GET_ATT\<close>.
\<close>

datatype ReferenceTypes = REF | SUB | GET_ATT | IF | FIND_IN_MAP | DEPENDS_ON

record Reference =
  rtype :: ReferenceTypes
  referencedKey :: string
  absoluteKeyPosition :: nat

text \<open>
  Modelled from the spec: the table \<open>Maps.nodeTagToReferenceType\<close> of \<open>common/Maps\<close>, which
  is not among the sources: the reference kind of each of the three tag contexts that name
  a reference directly.
\<close>

definition nodeTagToReferenceType :: "string \<Rightarrow> ReferenceTypes option" where
  "nodeTagToReferenceType t =
     (if t = ''!If'' then Some IF
      else if t = ''!FindInMap'' then Some FIND_IN_MAP
      else if t = ''DependsOn'' then Some DEPENDS_ON
      else None)"

text \<open>
  Modelled from the spec: the table \<open>Maps.nodeTypeToSubOffset\<close> of \<open>common/Maps\<close>, which is
  not among the sources: the quote offset of a \<open>!Sub\<close> scalar, 0 for an unquoted and 1 for
  a quoted one. The code looks it up for \<open>PLAIN\<close> and \<open>QUOTE_DOUBLE\<close> scalars only.
\<close>

fun nodeTypeToSubOffset :: "ScalarTypes \<Rightarrow> nat" where
  "nodeTypeToSubOffset PLAIN = 0"
| "nodeTypeToSubOffset QUOTE_DOUBLE = 1"
| "nodeTypeToSubOffset QUOTE_SINGLE = 1"
| "nodeTypeToSubOffset BLOCK_FOLDED = 0"
| "nodeTypeToSubOffset BLOCK_LITERAL = 0"

text \<open>
  The loop over \<open>regEx.exec(value)\<close> with the global expression \<open>\$\{[^}]*\}\<close>: every match,
  left to right, as its \<open>index\<close> and its text. A match starts at a dollar sign followed by
  an opening brace and ends at the first closing brace after them; the search goes on
  behind the match.
\<close>

function subMatches :: "nat \<Rightarrow> string \<Rightarrow> (nat \<times> string) list" where
  "subMatches i [] = []"
| "subMatches i (c # cs) =
     (if c = CHR ''$'' \<and> take 1 cs = ''{'' \<and> CHR ''}'' \<in> set (drop 1 cs)
      then (let inner = takeWhile (\<lambda>x. x \<noteq> CHR ''}'') (drop 1 cs)
            in (i, ''${'' @ inner @ ''}'') # subMatches (i + length inner + 3) (drop (length inner + 2) cs))
      else subMatches (i + 1) cs)"
  by pat_completeness auto
termination
  by (relation "measure (\<lambda>(i, s). length s)") auto

text \<open>\<open>match[0].substring(2, match[0].length - 1)\<close>.\<close>

definition stripBraces :: "string \<Rightarrow> string" where
  "stripBraces m = take (length m - 1 - 2) (drop 2 m)"

text \<open>
  The inspection of a scalar (lines 298 to 356, the branch for \<open>PLAIN\<close> and
  \<open>QUOTE_DOUBLE\<close> nodes): the \<open>references\<close> of every node the branch returns.
\<close>

definition orElse :: "string option \<Rightarrow> string option \<Rightarrow> string option" where
  "orElse a b = (if truthy a then a else b)"

definition inspectScalar ::
  "ScalarTypes \<Rightarrow> string option \<Rightarrow> string option \<Rightarrow> nat \<Rightarrow> string \<Rightarrow> Reference list list" where
  "inspectScalar ty tg sk range0 v =
     (let nodeTag = orElse tg sk in
      if nodeTag = Some ''!If'' \<or> nodeTag = Some ''!FindInMap'' \<or> nodeTag = Some ''DependsOn''
      then [[\<lparr>rtype = the (nodeTagToReferenceType (the nodeTag)), referencedKey = v,
               absoluteKeyPosition = range0\<rparr>]]
      else if tg = Some ''!GetAtt''
      then [[\<lparr>rtype = GET_ATT, referencedKey = v, absoluteKeyPosition = range0 + 8\<rparr>]]
      else if tg = Some ''!Ref'' \<and> take 5 v \<noteq> ''AWS::''
      then [[\<lparr>rtype = REF, referencedKey = v, absoluteKeyPosition = range0 + 5\<rparr>]]
      else if tg = Some ''!Sub''
      then [map (\<lambda>(index, m).
                  \<lparr>rtype = SUB, referencedKey = stripBraces m,
                   absoluteKeyPosition = range0 + 5 + nodeTypeToSubOffset ty + 2 + index\<rparr>)
                (subMatches 0 v)]
      else [])"

text \<open>
  \<open>flattenArray\<close> over the results of the recursive calls, which JavaScript evaluates in
  order: the first call that raises ends the traversal.
\<close>

fun flattenResults :: "(error + 'a list) list \<Rightarrow> error + 'a list" where
  "flattenResults [] = Inr []"
| "flattenResults (Inl e # rs) = Inl e"
| "flattenResults (Inr xs # rs) =
     (case flattenResults rs of Inl e \<Rightarrow> Inl e | Inr ys \<Rightarrow> Inr (xs @ ys))"

lemma size_setTagIfUnset [simp]: "size (setTagIfUnset t n) = size n"
  by (cases n) auto

lemma size_inPairContext [simp]: "size (inPairContext t k n) = size n"
  by (cases n) auto

lemma size_getNodeValueIfPair: "getNodeValueIfPair n = Some v \<Longrightarrow> size v \<le> size n"
  by (cases n) auto

text \<open>
  \<open>getSubNodesWhichReference\<close> (lines 260 to 358) for a node that is not \<open>undefined\<close>:
  the sequence branch, the map branch and the inspection of a scalar, each behind the
  source's test of the node type. The result lists the
  \<open>references\<close> array of every node the source returns, in order. Reading \<open>type\<close> of a
  missing pair value raises a TypeError.
\<close>

function getSubNodesWhichReference :: "Node \<Rightarrow> error + Reference list list" where
  "getSubNodesWhichReference node =
     (case getNodeValueIfPair node of
        None \<Rightarrow> Inl TypeError
      | Some nodeValue \<Rightarrow>
          (case nodeValue of
             Collection ty tg r its \<Rightarrow>
               (if ty = FLOW_SEQ then
                  (case its of
                     [] \<Rightarrow> Inr []
                   | firstSubNode # rest \<Rightarrow>
                       flattenResults
                         (getSubNodesWhichReference (setTagIfUnset tg firstSubNode)
                          # map getSubNodesWhichReference rest))
                else if ty = MAP then
                  flattenResults
                    (map (\<lambda>item. getSubNodesWhichReference (setTagIfUnset tg item)) its)
                else Inr [])
           | Scalar ty tg sk r v \<Rightarrow>
               (if ty = PLAIN \<or> ty = QUOTE_DOUBLE then Inr (inspectScalar ty tg sk r v)
                else Inr [])
           | Pair tg k kr v \<Rightarrow> Inr []))"
  by pat_completeness auto

lemma size_item: "x \<in> set (its :: Node list) \<Longrightarrow> size x \<le> size_list size its"
  using size_list_estimation' [of x its "size x" size] by simp

termination getSubNodesWhichReference
proof (relation "measure size", goal_cases)
  case 1
  show ?case by simp
next
  case (2 node nodeValue ty tg r its firstSubNode rest)
  then show ?case by (auto dest: size_getNodeValueIfPair)
next
  case (3 node nodeValue ty tg r its firstSubNode rest x)
  then have "size x \<le> size_list size rest" by (simp add: size_item)
  with 3 show ?case by (auto dest: size_getNodeValueIfPair)
next
  case (4 node nodeValue ty tg r its x)
  then have "size x \<le> size_list size its" by (simp add: size_item)
  with 4 show ?case by (auto dest: size_getNodeValueIfPair)
qed

declare getSubNodesWhichReference.simps [simp del]

section \<open>Diagnostics and referenceable names\<close>

datatype DiagnosticSeverity = Error | Warning

record Diagnostic =
  startLine :: nat
  startColumn :: int
  endLine :: nat
  endColumn :: int
  severity :: DiagnosticSeverity
  message :: string

text \<open>
  Modelled from the spec: \<open>createDiagnostic\<close> of \<open>common/Diagnostics\<close>, which is not among
  the sources. The range spans from (line, column) to (line, column + length).
\<close>

definition createDiagnostic :: "Position \<Rightarrow> nat \<Rightarrow> DiagnosticSeverity \<Rightarrow> string \<Rightarrow> Diagnostic" where
  "createDiagnostic position len sev msg =
     \<lparr>startLine = line position, startColumn = column position,
      endLine = line position, endColumn = column position + int len,
      severity = sev, message = msg\<rparr>"

text \<open>
  \<open>addDiagnostic\<close> (lines 70 to 73): the document's entry of the diagnostic collection with one more
  diagnostic at its end. Every procedure below takes the entry and returns it.
\<close>

definition addDiagnostic :: "Diagnostic list \<Rightarrow> Diagnostic \<Rightarrow> Diagnostic list" where
  "addDiagnostic existingDiagnostics newDiagnostic = existingDiagnostics @ [newDiagnostic]"

definition quoted :: "string \<Rightarrow> string" where
  "quoted s = CHR 0x27 # s @ [CHR 0x27]"

record ParameterReferenceable =
  parameterName :: string
  hasDefault :: bool

record SubStackReferenceables =
  outputs :: "string list"
  parametersByUrl :: "string \<rightharpoonup> ParameterReferenceable list"

text \<open>
  The local name lists are what \<open>getYamlNodeKeys\<close> returns: the \<open>stringKey\<close> of every item,
  which is \<open>undefined\<close> for an item that has none.
\<close>

record Referenceables =
  parameters :: "string option list"
  resources :: "string option list"
  mappings :: "string option list"
  conditions :: "string option list"
  subStackReferenceables :: SubStackReferenceables

section \<open>Reference resolution\<close>

text \<open>
  Modelled from the spec: the table \<open>Maps.referenceTypeToDiagnosticMessage\<close> of
  \<open>common/Maps\<close>, which is not among the sources: the "unable to find referenced variable"
  message, worded as the first source file words it.
\<close>

definition referenceTypeToDiagnosticMessage :: "ReferenceTypes \<Rightarrow> string \<Rightarrow> string" where
  "referenceTypeToDiagnosticMessage t key = ''Unable to find referenced variable, '' @ quoted key"

definition localReferenceables :: "Referenceables \<Rightarrow> string option list" where
  "localReferenceables referenceables =
     conditions referenceables @ mappings referenceables
       @ parameters referenceables @ resources referenceables"

text \<open>
  A procedure that records diagnostics may raise after it has recorded some: its result is
  the state it leaves and the error it raised, if any. \<open>forEach\<close> stops at the first
  callback that raises.
\<close>

fun forEach :: "('s \<Rightarrow> 'a \<Rightarrow> 's \<times> error option) \<Rightarrow> 'a list \<Rightarrow> 's \<Rightarrow> 's \<times> error option" where
  "forEach f [] s = (s, None)"
| "forEach f (x # xs) s =
     (case f s x of
        (s', None) \<Rightarrow> forEach f xs s'
      | (s', Some e) \<Rightarrow> (s', Some e))"

text \<open>
  The second source file imports \<open>getRowColumnPosition\<close> from \<open>common\<close>. The function of
  this name among the sources is the method of the first source file, embedded above: it is
  the one every caller below uses, and where it raises, the caller raises.

  The body of the inner \<open>forEach\<close> of \<open>buildInvalidReferenceDiagnostics\<close> (lines 220 to
  251): the position is computed first (line 232), before the reference is checked.
\<close>

definition checkReference ::
  "string \<Rightarrow> Referenceables \<Rightarrow> Diagnostic list \<Rightarrow> Reference
     \<Rightarrow> Diagnostic list \<times> error option" where
  "checkReference fullText referenceables ds reference =
     (case getRowColumnPosition fullText (absoluteKeyPosition reference) of
        Inl e \<Rightarrow> (ds, Some e)
      | Inr position \<Rightarrow>
          (let msg = referenceTypeToDiagnosticMessage (rtype reference)
                       (referencedKey reference);
               diagnostic = createDiagnostic position (length (referencedKey reference))
                              Error msg
           in if rtype reference = GET_ATT then
                (if referencedKey reference
                      \<notin> set (outputs (subStackReferenceables referenceables))
                 then (addDiagnostic ds diagnostic, None) else (ds, None))
              else if Some (referencedKey reference)
                        \<notin> set (localReferenceables referenceables)
              then (addDiagnostic ds diagnostic, None)
              else (ds, None)))"

text \<open>The two loops around it: over the nodes and over the references of each node.\<close>

definition buildInvalidReferenceDiagnostics ::
  "string \<Rightarrow> Referenceables \<Rightarrow> Reference list list \<Rightarrow> Diagnostic list
     \<Rightarrow> Diagnostic list \<times> error option" where
  "buildInvalidReferenceDiagnostics fullText referenceables nodesWhichReference ds =
     forEach (\<lambda>ds references. forEach (checkReference fullText referenceables) references ds)
       nodesWhichReference ds"

section \<open>Reading the tree\<close>

text \<open>
  What reading a property or calling \<open>get\<close> gives: \<open>undefined\<close> (or \<open>null\<close>), a string, a
  node, or a boolean or a number, of which only the truthiness is kept.
\<close>

datatype Got = Undefined | Str string | Nd Node | Primitive bool

text \<open>
  The value of a scalar node. The parser resolves a plain scalar without a tag by the core
  schema of YAML 1.2, its default: a text that spells null, a boolean or a number has that
  value and not a string. The tests below are the schema's, in its order: null, boolean,
  octal, decimal and hexadecimal integer, not-a-number and infinity, and a decimal fraction
  with or without exponent, which JavaScript reads with \<open>parseFloat\<close>. A number is falsy when
  it is zero or not a number; a fraction is zero also when it is too small for a double,
  that is at most 2 to the power of -1075. The value of every other scalar is taken as its
  string.
\<close>

definition isDigits :: "string \<Rightarrow> string \<Rightarrow> bool" where
  "isDigits allowed s = (s \<noteq> [] \<and> list_all (\<lambda>c. c \<in> set allowed) s)"

definition isZeros :: "string \<Rightarrow> bool" where
  "isZeros s = list_all (\<lambda>c. c = CHR ''0'') s"

definition unsignedPart :: "string \<Rightarrow> string" where
  "unsignedPart s = (if take 1 s = ''+'' \<or> take 1 s = ''-'' then drop 1 s else s)"

definition lowerCase :: "string \<Rightarrow> string" where
  "lowerCase s =
     map (\<lambda>c. if c = CHR ''I'' then CHR ''i'' else if c = CHR ''N'' then CHR ''n''
               else if c = CHR ''F'' then CHR ''f'' else if c = CHR ''A'' then CHR ''a''
               else c) s"

text \<open>
  The parts of a decimal number \<open>[-+]?digits(.digits)?([eE][-+]?digits)?\<close>: the digits before
  the point, the point with the digits behind it, and the exponent.
\<close>

definition isExponentMark :: "char \<Rightarrow> bool" where
  "isExponentMark c = (c = CHR ''e'' \<or> c = CHR ''E'')"

definition isDecimalDigit :: "char \<Rightarrow> bool" where
  "isDecimalDigit c = (c \<in> set ''0123456789'')"

definition mantissa :: "string \<Rightarrow> string" where
  "mantissa s = takeWhile (\<lambda>c. \<not> isExponentMark c) (unsignedPart s)"

definition exponentPart :: "string \<Rightarrow> string" where
  "exponentPart s = dropWhile (\<lambda>c. \<not> isExponentMark c) (unsignedPart s)"

definition integerDigits :: "string \<Rightarrow> string" where
  "integerDigits s = takeWhile isDecimalDigit (mantissa s)"

definition pointAndFraction :: "string \<Rightarrow> string" where
  "pointAndFraction s = dropWhile isDecimalDigit (mantissa s)"

definition fractionDigits :: "string \<Rightarrow> string" where
  "fractionDigits s = drop 1 (pointAndFraction s)"

definition hasFraction :: "string \<Rightarrow> bool" where
  "hasFraction s =
     (take 1 (pointAndFraction s) = ''.'' \<and> list_all isDecimalDigit (fractionDigits s)
      \<and> (integerDigits s \<noteq> [] \<or> fractionDigits s \<noteq> []))"

definition isFloat :: "string \<Rightarrow> bool" where
  "isFloat s = (exponentPart s = [] \<and> hasFraction s)"

definition isExp :: "string \<Rightarrow> bool" where
  "isExp s =
     (exponentPart s \<noteq> []
      \<and> isDigits ''0123456789'' (unsignedPart (drop 1 (exponentPart s)))
      \<and> (hasFraction s \<or> (pointAndFraction s = [] \<and> integerDigits s \<noteq> [])))"

definition digitsValue :: "string \<Rightarrow> nat" where
  "digitsValue s = foldl (\<lambda>n c. 10 * n + (of_char c - 48)) 0 s"

definition exponentValue :: "string \<Rightarrow> int" where
  "exponentValue s =
     (let e = drop 1 (exponentPart s)
      in if take 1 e = ''-'' then - int (digitsValue (drop 1 e))
         else int (digitsValue (unsignedPart e)))"

definition isZero :: "string \<Rightarrow> bool" where
  "isZero s =
     (let m = digitsValue (integerDigits s @ fractionDigits s);
          e = exponentValue s - int (length (fractionDigits s))
      in m = 0 \<or> (e < 0 \<and> m * 2 ^ 1075 \<le> 10 ^ nat (- e)))"

definition resolveScalar :: "string \<Rightarrow> Got" where
  "resolveScalar s =
     (if s \<in> {[], ''~'', ''null'', ''Null'', ''NULL''} then Undefined
      else if s \<in> {''true'', ''True'', ''TRUE''} then Primitive True
      else if s \<in> {''false'', ''False'', ''FALSE''} then Primitive False
      else if take 2 s = ''0o'' \<and> isDigits ''01234567'' (drop 2 s)
      then Primitive (\<not> isZeros (drop 2 s))
      else if isDigits ''0123456789'' (unsignedPart s)
      then Primitive (\<not> isZeros (unsignedPart s))
      else if take 2 s = ''0x'' \<and> isDigits ''0123456789abcdefABCDEF'' (drop 2 s)
      then Primitive (\<not> isZeros (drop 2 s))
      else if lowerCase s = ''.nan'' then Primitive False
      else if unsignedPart (lowerCase s) = ''.inf'' then Primitive True
      else if isExp s \<or> isFloat s then Primitive (\<not> isZero s)
      else Str s)"

text \<open>
  The parser's \<open>get(key)\<close> of a map looks for the first pair with that key and gives its
  value, unwrapped to the scalar's value when the value is a scalar; on a sequence a key
  that is no index gives \<open>undefined\<close>; a scalar and a pair have no method \<open>get\<close>, and
  calling it raises a TypeError.
\<close>

fun findPair :: "Node list \<Rightarrow> string \<Rightarrow> Node option" where
  "findPair [] key = None"
| "findPair (Pair tg k kr v # rest) key =
     (if k = key then Some (Pair tg k kr v) else findPair rest key)"
| "findPair (Scalar ty tg sk r v # rest) key = findPair rest key"
| "findPair (Collection ty tg r its # rest) key = findPair rest key"

fun unwrapped :: "Node option \<Rightarrow> Got" where
  "unwrapped None = Undefined"
| "unwrapped (Some (Scalar ty tg sk r v)) =
     (if ty = PLAIN \<and> \<not> truthy tg then resolveScalar v else Str v)"
| "unwrapped (Some (Collection ty tg r its)) = Nd (Collection ty tg r its)"
| "unwrapped (Some (Pair tg k kr v)) = Nd (Pair tg k kr v)"

fun pairValue :: "Node \<Rightarrow> Node option" where
  "pairValue (Pair tg k kr v) = v"
| "pairValue (Scalar ty tg sk r v) = None"
| "pairValue (Collection ty tg r its) = None"

fun yamlGet :: "Node \<Rightarrow> string \<Rightarrow> error + Got" where
  "yamlGet (Collection ty tg r its) key =
     (if ty = MAP \<or> ty = FLOW_MAP
      then (case findPair its key of
              None \<Rightarrow> Inr Undefined
            | Some pair \<Rightarrow> Inr (unwrapped (pairValue pair)))
      else Inr Undefined)"
| "yamlGet (Scalar ty tg sk r v) key = Inl TypeError"
| "yamlGet (Pair tg k kr v) key = Inl TypeError"

fun gotGet :: "Got \<Rightarrow> string \<Rightarrow> error + Got" where
  "gotGet (Nd node) key = yamlGet node key"
| "gotGet (Str s) key = Inl TypeError"
| "gotGet (Primitive b) key = Inl TypeError"
| "gotGet Undefined key = Inl TypeError"

text \<open>The \<open>stringKey\<close> property of an item.\<close>

fun itemStringKey :: "Node \<Rightarrow> string option" where
  "itemStringKey (Pair tg k kr v) = Some k"
| "itemStringKey (Scalar ty tg sk r v) = sk"
| "itemStringKey (Collection ty tg r its) = None"

text \<open>
  \<open>getYamlNodeKeys\<close>, as the first source file has it (lines 176 to 183): the
  \<open>stringKey\<close> of every item of a node with items, and nothing otherwise.
\<close>

fun getYamlNodeKeys :: "Got \<Rightarrow> string option list" where
  "getYamlNodeKeys (Nd (Collection ty tg r its)) = map itemStringKey its"
| "getYamlNodeKeys (Nd (Scalar ty tg sk r v)) = []"
| "getYamlNodeKeys (Nd (Pair tg k kr v)) = []"
| "getYamlNodeKeys (Str s) = []"
| "getYamlNodeKeys (Primitive b) = []"
| "getYamlNodeKeys Undefined = []"

text \<open>
  Modelled from the spec: \<open>getNodeItemByStringKey\<close> of \<open>common/Yaml\<close>, which is not among the
  sources: the first item of the node whose \<open>stringKey\<close> is the key, \<open>undefined\<close> when there
  is none.
\<close>

fun getNodeItemByStringKey :: "Node \<Rightarrow> string \<Rightarrow> Node option" where
  "getNodeItemByStringKey (Collection ty tg r its) key =
     find (\<lambda>item. itemStringKey item = Some key) its"
| "getNodeItemByStringKey (Scalar ty tg sk r v) key = None"
| "getNodeItemByStringKey (Pair tg k kr v) key = None"

text \<open>
  What \<open>YAML.parseDocument\<close> returns: the \<open>contents\<close> of the document (\<open>null\<close> for an empty
  one) and the \<open>errors\<close> the parser met. The parser does not raise on a text it cannot
  parse: it records the errors in the document and returns what it could build.
\<close>

record Document =
  contents :: "Node option"
  errors :: "string list"

text \<open>
  The tags the parser gives a node that has no tag of its own in the text: a map, a
  sequence and a quoted scalar get the tag of their kind; a plain scalar gets none.
\<close>

abbreviation mapTag :: "string option" where
  "mapTag \<equiv> Some ''tag:yaml.org,2002:map''"

abbreviation seqTag :: "string option" where
  "seqTag \<equiv> Some ''tag:yaml.org,2002:seq''"

abbreviation strTag :: "string option" where
  "strTag \<equiv> Some ''tag:yaml.org,2002:str''"

section \<open>Sub-stack parameter matcher\<close>

text \<open>
  The callback over \<open>parameters.items\<close> (lines 118 to 138): a supplied parameter that
  matches one of the remaining declared parameters takes it out of the list; one that
  matches none is reported at its key, once the position of the key is computed (line
  128). An item without a key node raises when its \<open>key.range\<close> is read.
\<close>

definition unknownParameterDiagnostic :: "Position \<Rightarrow> string \<Rightarrow> Diagnostic" where
  "unknownParameterDiagnostic position stringKey =
     createDiagnostic position (length stringKey) Error
       (''Referenced file does not have parameter, '' @ quoted stringKey)"

definition checkSuppliedParameter ::
  "string \<Rightarrow> Diagnostic list \<times> ParameterReferenceable list \<Rightarrow> Node
     \<Rightarrow> (Diagnostic list \<times> ParameterReferenceable list) \<times> error option" where
  "checkSuppliedParameter fullText state parameterPair =
     (case state of (ds, referenceableParameters) \<Rightarrow>
        (case find (\<lambda>referenceableParameter.
                      itemStringKey parameterPair = Some (parameterName referenceableParameter))
                referenceableParameters of
           Some matchingParameter \<Rightarrow>
             ((ds, remove1 matchingParameter referenceableParameters), None)
         | None \<Rightarrow>
             (case parameterPair of
                Pair tg stringKey keyRange0 v \<Rightarrow>
                  (case getRowColumnPosition fullText keyRange0 of
                     Inl e \<Rightarrow> ((ds, referenceableParameters), Some e)
                   | Inr position \<Rightarrow>
                       ((addDiagnostic ds (unknownParameterDiagnostic position stringKey),
                         referenceableParameters), None))
              | Scalar ty tg sk r v \<Rightarrow> ((ds, referenceableParameters), Some TypeError)
              | Collection ty tg r its \<Rightarrow> ((ds, referenceableParameters), Some TypeError))))"

text \<open>The diagnostic for a declared parameter that was not supplied.\<close>

definition missingParameterDiagnostic :: "Position \<Rightarrow> ParameterReferenceable \<Rightarrow> Diagnostic" where
  "missingParameterDiagnostic propertiesPosition referenceableParameter =
     createDiagnostic propertiesPosition (length ''Properties'')
       (if hasDefault referenceableParameter then Warning else Error)
       (if hasDefault referenceableParameter
        then ''Properties missing value for parameter with default value, ''
               @ quoted (parameterName referenceableParameter)
        else ''Properties missing value for required parameter, ''
               @ quoted (parameterName referenceableParameter))"

text \<open>
  The part of the callback behind \<open>typeof templateUrl === 'string'\<close>, given the node
  \<open>properties\<close>. Without a \<open>Parameters\<close> pair, or with one whose value has no items,
  reading \<open>parameters.items\<close> (or applying \<open>forEach\<close> to it) raises; so does a template URL
  without an entry among the sub-stack parameters. The position of the key \<open>Parameters\<close>
  is computed once (line 145), when declared parameters are left.
\<close>

definition matchSubStackParameters ::
  "string \<Rightarrow> SubStackReferenceables \<Rightarrow> Node \<Rightarrow> string \<Rightarrow> Diagnostic list
     \<Rightarrow> Diagnostic list \<times> error option" where
  "matchSubStackParameters fullText subStackRefs properties templateUrl ds =
     (case getNodeItemByStringKey properties ''Parameters'' of
        None \<Rightarrow> (ds, Some TypeError)
      | Some propertiesPair \<Rightarrow>
          (case getNodeValueIfPair propertiesPair of
             Some (Collection ty tg r its) \<Rightarrow>
               (case parametersByUrl subStackRefs templateUrl of
                  None \<Rightarrow> (ds, Some TypeError)
                | Some declared \<Rightarrow>
                    (case forEach (checkSuppliedParameter fullText) its (ds, declared) of
                       ((ds', referenceableParameters), Some e) \<Rightarrow> (ds', Some e)
                     | ((ds', referenceableParameters), None) \<Rightarrow>
                         (if referenceableParameters \<noteq> [] then
                            (case propertiesPair of
                               Pair ptg pk keyRange0 pv \<Rightarrow>
                                 (case getRowColumnPosition fullText keyRange0 of
                                    Inl e \<Rightarrow> (ds', Some e)
                                  | Inr propertiesPosition \<Rightarrow>
                                      (foldl (\<lambda>ds referenceableParameter.
                                                addDiagnostic ds
                                                  (missingParameterDiagnostic propertiesPosition
                                                     referenceableParameter))
                                         ds' referenceableParameters, None))
                             | Scalar sty stg ssk sr sv \<Rightarrow> (ds', Some TypeError)
                             | Collection cty ctg cr cits \<Rightarrow> (ds', Some TypeError))
                          else (ds', None))))
           | Some (Scalar sty stg ssk sr sv) \<Rightarrow> (ds, Some TypeError)
           | Some (Pair ptg pk pkr pv) \<Rightarrow> (ds, Some TypeError)
           | None \<Rightarrow> (ds, Some TypeError)))"

text \<open>
  The callback of \<open>buildInvalidSubStackParameterDiagnostics\<close> (lines 101 to 159) for one
  child-stack node pair.
  A pair without a value is skipped. Without a \<open>Properties\<close> pair, or with one that has no
  value or a scalar value, calling \<open>properties.get\<close> raises.
\<close>

definition checkSubStackNodePair ::
  "string \<Rightarrow> SubStackReferenceables \<Rightarrow> Diagnostic list \<Rightarrow> Node
     \<Rightarrow> Diagnostic list \<times> error option" where
  "checkSubStackNodePair fullText subStackRefs ds subStackNodePair =
     (case pairValue subStackNodePair of
        None \<Rightarrow> (ds, None)
      | Some subStackNodeValue \<Rightarrow>
          (case getNodeItemByStringKey subStackNodeValue ''Properties'' of
             None \<Rightarrow> (ds, Some TypeError)
           | Some propertiesItem \<Rightarrow>
               (case getNodeValueIfPair propertiesItem of
                  None \<Rightarrow> (ds, Some TypeError)
                | Some properties \<Rightarrow>
                    (case yamlGet properties ''TemplateURL'' of
                       Inl e \<Rightarrow> (ds, Some e)
                     | Inr (Str templateUrl) \<Rightarrow>
                         matchSubStackParameters fullText subStackRefs properties templateUrl ds
                     | Inr (Nd n) \<Rightarrow> (ds, None)
                     | Inr (Primitive b) \<Rightarrow> (ds, None)
                     | Inr Undefined \<Rightarrow> (ds, None)))))"

text \<open>The loop over the child-stack node pairs: it ends at the first callback that raises.\<close>

definition buildInvalidSubStackParameterDiagnostics ::
  "string \<Rightarrow> SubStackReferenceables \<Rightarrow> Node list \<Rightarrow> Diagnostic list
     \<Rightarrow> Diagnostic list \<times> error option" where
  "buildInvalidSubStackParameterDiagnostics fullText subStackRefs subStackNodePairs ds =
     forEach (checkSubStackNodePair fullText subStackRefs) subStackNodePairs ds"

section \<open>Referenceable collector\<close>

text \<open>
  \<open>getSubStackNodePairs\<close> (lines 86 to 99) for a node that is not \<open>undefined\<close>: the nodes
  whose value is a map with \<open>Type: AWS::CloudFormation::Stack\<close>, searched through the maps
  above them.
\<close>

function getSubStackNodePairs :: "Node \<Rightarrow> error + Node list" where
  "getSubStackNodePairs node =
     (case getNodeValueIfPair node of
        None \<Rightarrow> Inl TypeError
      | Some nodeValue \<Rightarrow>
          (case nodeValue of
             Collection ty tg r its \<Rightarrow>
               (if ty = MAP then
                  (if yamlGet nodeValue ''Type'' = Inr (Str ''AWS::CloudFormation::Stack'')
                   then Inr [node]
                   else flattenResults (map getSubStackNodePairs its))
                else Inr [])
           | Scalar ty tg sk r v \<Rightarrow> Inr []
           | Pair tg k kr v \<Rightarrow> Inr []))"
  by pat_completeness auto
termination
proof (relation "measure size", goal_cases)
  case 1
  show ?case by simp
next
  case (2 node nodeValue ty tg r its x)
  then have "size x \<le> size_list size its" by (simp add: size_item)
  with 2 show ?case by (auto dest: size_getNodeValueIfPair)
qed

declare getSubStackNodePairs.simps [simp del]

text \<open>
  \<open>findSubStackNodePairs\<close> (lines 75 to 84): the search starts at the top-level item of
  the document with the key \<open>Resources\<close>.
\<close>

definition findSubStackNodePairs :: "Document \<Rightarrow> error + Node list" where
  "findSubStackNodePairs document =
     (case contents document of
        Some (Collection ty tg r documentItems) \<Rightarrow>
          (case find (\<lambda>item. itemStringKey item = Some ''Resources'') documentItems of
             None \<Rightarrow> Inr []
           | Some resourcesItem \<Rightarrow> getSubStackNodePairs resourcesItem)
      | Some (Scalar ty tg sk r v) \<Rightarrow> Inr []
      | Some (Pair tg k kr v) \<Rightarrow> Inr []
      | None \<Rightarrow> Inr [])"

text \<open>How a template literal prints a string that may be \<open>undefined\<close>, and \<open>!!value\<close>.\<close>

fun jsString :: "string option \<Rightarrow> string" where
  "jsString None = ''undefined''"
| "jsString (Some s) = s"

fun truthyGot :: "Got \<Rightarrow> bool" where
  "truthyGot Undefined = False"
| "truthyGot (Str s) = (s \<noteq> [])"
| "truthyGot (Primitive b) = b"
| "truthyGot (Nd n) = True"

text \<open>
  The file system and the parser, as the collector sees them (lines 177 and 178): reading
  the file at a path raises, with the text \<open>JSON.stringify(revealAllProperties(error))\<close> of
  the failure, or gives a text, of which the parser makes a document.
\<close>

type_synonym FileSystem = "string \<Rightarrow> string + Document"

text \<open>The callback over the \<open>Parameters\<close> items of a child template.\<close>

definition addDeclaredParameter ::
  "string \<Rightarrow> SubStackReferenceables \<Rightarrow> Node \<Rightarrow> SubStackReferenceables \<times> error option" where
  "addDeclaredParameter templateUrl refs item =
     (case item of
        Pair tg stringKey kr (Some v) \<Rightarrow>
          (case yamlGet v ''Default'' of
             Inl e \<Rightarrow> (refs, Some e)
           | Inr defaultValue \<Rightarrow>
               (case parametersByUrl refs templateUrl of
                  None \<Rightarrow> (refs, Some TypeError)
                | Some declared \<Rightarrow>
                    (refs\<lparr>parametersByUrl := (parametersByUrl refs)
                        (templateUrl \<mapsto> declared
                           @ [\<lparr>parameterName = stringKey,
                                hasDefault = truthyGot defaultValue\<rparr>])\<rparr>, None)))
      | Pair tg stringKey kr None \<Rightarrow> (refs, None)
      | Scalar ty tg sk r v \<Rightarrow> (refs, None)
      | Collection ty tg r its \<Rightarrow> (refs, None))"

text \<open>
  The \<open>catch\<close> block (lines 179 to 193): the Error diagnostic at the value of the
  \<open>TemplateURL\<close> pair, with the file path and the failure in its message. The position is
  computed inside the block (line 184): where the mapper raises, the error leaves the
  block and the callback.
\<close>

definition loadFailureDiagnostic :: "Position \<Rightarrow> string \<Rightarrow> string \<Rightarrow> string \<Rightarrow> Diagnostic" where
  "loadFailureDiagnostic position templateUrl filePath detail =
     createDiagnostic position (length templateUrl) Error
       (''Unable to load or parse template file, '' @ quoted filePath
          @ ''. Error encountered: '' @ detail)"

definition reportLoadFailure ::
  "string \<Rightarrow> Got \<Rightarrow> string \<Rightarrow> string \<Rightarrow> Diagnostic list \<Rightarrow> Diagnostic list \<times> error option" where
  "reportLoadFailure fullText properties filePath detail ds =
     (case properties of
        Nd propertiesNode \<Rightarrow>
          (case getNodeItemByStringKey propertiesNode ''TemplateURL'' of
             None \<Rightarrow> (ds, None)
           | Some templateUrlNodePair \<Rightarrow>
               (case pairValue templateUrlNodePair of
                  Some (Scalar ty tg sk range0 templateUrl) \<Rightarrow>
                    (case getRowColumnPosition fullText range0 of
                       Inl e \<Rightarrow> (ds, Some e)
                     | Inr position \<Rightarrow>
                         (addDiagnostic ds
                            (loadFailureDiagnostic position templateUrl filePath detail),
                          None))
                | Some (Collection ty tg r its) \<Rightarrow> (ds, Some TypeError)
                | Some (Pair tg k kr v) \<Rightarrow> (ds, Some TypeError)
                | None \<Rightarrow> (ds, Some TypeError)))
      | Str s \<Rightarrow> (ds, Some TypeError)
      | Primitive b \<Rightarrow> (ds, Some TypeError)
      | Undefined \<Rightarrow> (ds, Some TypeError))"

text \<open>
  What a loaded child template contributes (lines 194 to 211, behind the \<open>try\<close>
  statement): its output keys as \<open>resourceName.Outputs.key\<close> and its declared parameters.
  The \<open>errors\<close> of the document are not read. Calling \<open>get\<close> on missing or scalar
  \<open>contents\<close> raises.
\<close>

definition collectSubStack ::
  "string option \<Rightarrow> string \<Rightarrow> Document \<Rightarrow> SubStackReferenceables
     \<Rightarrow> SubStackReferenceables \<times> error option" where
  "collectSubStack resourceName templateUrl document refs =
     (case contents document of
        None \<Rightarrow> (refs, Some TypeError)
      | Some documentContents \<Rightarrow>
          (case yamlGet documentContents ''Outputs'' of
             Inl e \<Rightarrow> (refs, Some e)
           | Inr childOutputs \<Rightarrow>
               (let refs' = refs\<lparr>outputs := outputs refs
                      @ map (\<lambda>key. jsString resourceName @ ''.Outputs.'' @ jsString key)
                          (getYamlNodeKeys childOutputs)\<rparr>
                in case yamlGet documentContents ''Parameters'' of
                     Inl e \<Rightarrow> (refs', Some e)
                   | Inr (Nd (Collection ty tg r its)) \<Rightarrow>
                       forEach (addDeclaredParameter templateUrl) its refs'
                   | Inr (Nd (Scalar ty tg sk r v)) \<Rightarrow> (refs', None)
                   | Inr (Nd (Pair tg k kr v)) \<Rightarrow> (refs', None)
                   | Inr (Str s) \<Rightarrow> (refs', None)
                   | Inr (Primitive b) \<Rightarrow> (refs', None)
                   | Inr Undefined \<Rightarrow> (refs', None))))"

text \<open>
  The callback of \<open>getSubStackReferenceables\<close> (lines 161 to 218) for one child-stack
  node pair. The state is
  the sub-stack referenceables collected so far and the document's diagnostics.
\<close>

definition loadSubStack ::
  "FileSystem \<Rightarrow> string \<Rightarrow> string \<Rightarrow> SubStackReferenceables \<times> Diagnostic list \<Rightarrow> Node
     \<Rightarrow> (SubStackReferenceables \<times> Diagnostic list) \<times> error option" where
  "loadSubStack fs fullText parentPath state nodePair =
     (case state of (refs, ds) \<Rightarrow>
        (case pairValue nodePair of
           None \<Rightarrow> (state, Some TypeError)
         | Some v \<Rightarrow>
             (case yamlGet v ''Properties'' of
                Inl e \<Rightarrow> (state, Some e)
              | Inr properties \<Rightarrow>
                  (case gotGet properties ''TemplateURL'' of
                     Inl e \<Rightarrow> (state, Some e)
                   | Inr (Str templateUrl) \<Rightarrow>
                       (let refs' = refs\<lparr>parametersByUrl :=
                                           (parametersByUrl refs)(templateUrl \<mapsto> [])\<rparr>;
                            filePath = parentPath @ ''/'' @ templateUrl
                        in case fs filePath of
                             Inl detail \<Rightarrow>
                               (case reportLoadFailure fullText properties filePath detail ds of
                                  (ds', raised) \<Rightarrow> ((refs', ds'), raised))
                           | Inr document \<Rightarrow>
                               (case collectSubStack (itemStringKey nodePair) templateUrl
                                       document refs' of
                                  (refs'', raised) \<Rightarrow> ((refs'', ds), raised)))
                   | Inr (Nd n) \<Rightarrow> (state, None)
                   | Inr (Primitive b) \<Rightarrow> (state, None)
                   | Inr Undefined \<Rightarrow> (state, None)))))"

definition getSubStackReferenceables ::
  "FileSystem \<Rightarrow> string \<Rightarrow> Node list \<Rightarrow> string \<Rightarrow> Diagnostic list
     \<Rightarrow> (SubStackReferenceables \<times> Diagnostic list) \<times> error option" where
  "getSubStackReferenceables fs fullText subStackNodePairs parentPath ds =
     forEach (loadSubStack fs fullText parentPath) subStackNodePairs
       (\<lparr>outputs = [], parametersByUrl = Map.empty\<rparr>, ds)"

text \<open>\<open>rootFilePath.substring(0, rootFilePath.lastIndexOf('/'))\<close>.\<close>

definition parentPathOf :: "string \<Rightarrow> string" where
  "parentPathOf rootFilePath =
     (if CHR ''/'' \<in> set rootFilePath
      then rev (tl (dropWhile (\<lambda>c. c \<noteq> CHR ''/'') (rev rootFilePath)))
      else [])"

text \<open>
  \<open>getReferenceables\<close> (lines 360 to 396), given the file name, the text and the document
  the parser makes of the text: the diagnostics it leaves, and the referenceables unless
  it raised.
\<close>

definition getReferenceables ::
  "FileSystem \<Rightarrow> string \<Rightarrow> string \<Rightarrow> Document \<Rightarrow> Diagnostic list
     \<Rightarrow> Diagnostic list \<times> (error + Referenceables)" where
  "getReferenceables fs rootFilePath fullText document ds =
     (case contents document of
        None \<Rightarrow>
          (ds, Inr \<lparr>parameters = [], resources = [], mappings = [], conditions = [],
                    subStackReferenceables = \<lparr>outputs = [], parametersByUrl = Map.empty\<rparr>\<rparr>)
      | Some documentContents \<Rightarrow>
          (case yamlGet documentContents ''Parameters'' of
             Inl e \<Rightarrow> (ds, Inl e)
           | Inr parametersNode \<Rightarrow>
               (case yamlGet documentContents ''Resources'' of
                  Inl e \<Rightarrow> (ds, Inl e)
                | Inr resourcesNode \<Rightarrow>
                    (case yamlGet documentContents ''Conditions'' of
                       Inl e \<Rightarrow> (ds, Inl e)
                     | Inr conditionsNode \<Rightarrow>
                         (case yamlGet documentContents ''Mappings'' of
                            Inl e \<Rightarrow> (ds, Inl e)
                          | Inr mappingsNode \<Rightarrow>
                              (case findSubStackNodePairs document of
                                 Inl e \<Rightarrow> (ds, Inl e)
                               | Inr subStackNodePairs \<Rightarrow>
                                   (case getSubStackReferenceables fs fullText subStackNodePairs
                                           (parentPathOf rootFilePath) ds of
                                      ((subStackRefs, ds'), Some e) \<Rightarrow> (ds', Inl e)
                                    | ((subStackRefs, ds'), None) \<Rightarrow>
                                        (ds', Inr \<lparr>parameters = getYamlNodeKeys parametersNode,
                                                   resources = getYamlNodeKeys resourcesNode,
                                                   mappings = getYamlNodeKeys mappingsNode,
                                                   conditions = getYamlNodeKeys conditionsNode,
                                                   subStackReferenceables = subStackRefs\<rparr>))))))))"

section \<open>Orchestrator\<close>

text \<open>
  The document's \<open>get(key)\<close>: that of its contents when they are a collection, and
  \<open>undefined\<close> otherwise.
\<close>

definition documentGet :: "Document \<Rightarrow> string \<Rightarrow> Got" where
  "documentGet document key =
     (case contents document of
        Some (Collection ty tg r its) \<Rightarrow>
          (case yamlGet (Collection ty tg r its) key of Inr g \<Rightarrow> g | Inl e \<Rightarrow> Undefined)
      | Some (Scalar ty tg sk r v) \<Rightarrow> Undefined
      | Some (Pair tg k kr v) \<Rightarrow> Undefined
      | None \<Rightarrow> Undefined)"

text \<open>
  \<open>getSubNodesWhichReference\<close> on what \<open>get\<close> gave: nothing for \<open>undefined\<close> and for a
  string, a boolean or a number, which have no \<open>type\<close>.
\<close>

fun subNodesWhichReference :: "Got \<Rightarrow> error + Reference list list" where
  "subNodesWhichReference (Nd node) = getSubNodesWhichReference node"
| "subNodesWhichReference (Str s) = Inr []"
| "subNodesWhichReference (Primitive b) = Inr []"
| "subNodesWhichReference Undefined = Inr []"

definition getNodesWhichReference :: "Document \<Rightarrow> error + Reference list list" where
  "getNodesWhichReference document =
     flattenResults
       [subNodesWhichReference (documentGet document ''Resources''),
        subNodesWhichReference (documentGet document ''Outputs'')]"

text \<open>
  \<open>checkYaml\<close> (lines 42 to 64) for an open editor, given the file system, the document's
  file name and text and the document the parser makes of the text: the document's entry
  of the diagnostic collection when the pass ends. The entry is deleted first; an error
  raised anywhere ends the pass and is logged, and the diagnostics recorded before it stay.
\<close>

definition checkYaml :: "FileSystem \<Rightarrow> string \<Rightarrow> string \<Rightarrow> Document \<Rightarrow> Diagnostic list" where
  "checkYaml fs rootFilePath fullText document =
     (case getReferenceables fs rootFilePath fullText document [] of
        (ds, Inl e) \<Rightarrow> ds
      | (ds, Inr referenceables) \<Rightarrow>
          (case getNodesWhichReference document of
             Inl e \<Rightarrow> ds
           | Inr nodesWhichReference \<Rightarrow>
               (case buildInvalidReferenceDiagnostics fullText referenceables
                       nodesWhichReference ds of
                  (ds', Some e) \<Rightarrow> ds'
                | (ds', None) \<Rightarrow>
                    (case findSubStackNodePairs document of
                       Inl e \<Rightarrow> ds'
                     | Inr subStackNodePairs \<Rightarrow>
                         fst (buildInvalidSubStackParameterDiagnostics fullText
                                (subStackReferenceables referenceables) subStackNodePairs
                                ds')))))"

section \<open>Kinds of documents and references\<close>

text \<open>
  An offset behind the first line of a text: a line feed precedes it. These are the
  offsets at which the position mapper returns.
\<close>

definition behindFirstLine :: "string \<Rightarrow> nat \<Rightarrow> bool" where
  "behindFirstLine text absoluteOffset = (CHR 0x0A \<in> set (take absoluteOffset text))"

text \<open>
  A reference whose check fails: a GetAtt reference that is no sub-stack output, a
  reference of another kind that is no local name.
\<close>

definition unresolved :: "Referenceables \<Rightarrow> Reference \<Rightarrow> bool" where
  "unresolved referenceables reference =
     (if rtype reference = GET_ATT
      then referencedKey reference \<notin> set (outputs (subStackReferenceables referenceables))
      else Some (referencedKey reference)
             \<notin> set (conditions referenceables @ mappings referenceables
                     @ parameters referenceables @ resources referenceables))"

text \<open>
  The places the traversal of the extractor goes to, from a node it is applied to: the
  value of the node itself when that is a scalar, then with the tag and key name the
  traversal has handed down to it; and what it reaches from an item of a block map, from
  the first item of a flow sequence, each with the tag of the collection when it has none,
  and from the other items of a flow sequence.
\<close>

inductive reaches :: "Node \<Rightarrow> Node \<Rightarrow> bool" where
  scalar:
    "getNodeValueIfPair node = Some (Scalar ty tg sk r v)
     \<Longrightarrow> reaches node (Scalar ty tg sk r v)"
| mapItem:
    "getNodeValueIfPair node = Some (Collection MAP tg r its) \<Longrightarrow> item \<in> set its
     \<Longrightarrow> reaches (setTagIfUnset tg item) target \<Longrightarrow> reaches node target"
| firstOfSequence:
    "getNodeValueIfPair node = Some (Collection FLOW_SEQ tg r (firstSubNode # rest))
     \<Longrightarrow> reaches (setTagIfUnset tg firstSubNode) target \<Longrightarrow> reaches node target"
| restOfSequence:
    "getNodeValueIfPair node = Some (Collection FLOW_SEQ tg r (firstSubNode # rest))
     \<Longrightarrow> item \<in> set rest \<Longrightarrow> reaches item target \<Longrightarrow> reaches node target"

code_pred reaches .

text \<open>
  A text in which every \<open>${\<close> is closed: a closing brace follows each one. Behind such a
  text the search for placeholders starts afresh.
\<close>

fun closedBefore :: "string \<Rightarrow> bool" where
  "closedBefore [] = True"
| "closedBefore (c # cs) =
     ((c = CHR ''$'' \<and> take 1 cs = ''{'' \<longrightarrow> CHR ''}'' \<in> set (drop 1 cs))
      \<and> closedBefore cs)"

text \<open>
  The names the extractor reacts to: the five tags, and \<open>DependsOn\<close>, which it looks for
  among tags and key names alike. The first three are the contexts that name a reference
  directly.
\<close>

definition isDirectContext :: "string \<Rightarrow> bool" where
  "isDirectContext t = (t = ''!If'' \<or> t = ''!FindInMap'' \<or> t = ''DependsOn'')"

definition isIntrinsicTag :: "string \<Rightarrow> bool" where
  "isIntrinsicTag t =
     (isDirectContext t \<or> t = ''!GetAtt'' \<or> t = ''!Ref'' \<or> t = ''!Sub'')"

text \<open>
  A tree without intrinsic usage: no node carries one of these tags (the tags the parser
  gives by default, as \<open>tag:yaml.org,2002:map\<close>, are not among them), and no key is
  \<open>DependsOn\<close> (or is spelled like the tags \<open>!If\<close> and \<open>!FindInMap\<close>).
\<close>

definition plainTag :: "string option \<Rightarrow> bool" where
  "plainTag tg = (case tg of None \<Rightarrow> True | Some t \<Rightarrow> \<not> isIntrinsicTag t)"

fun noIntrinsicUsage :: "Node \<Rightarrow> bool" where
  "noIntrinsicUsage (Scalar ty tg sk r v) =
     (plainTag tg \<and> (case sk of None \<Rightarrow> True | Some k \<Rightarrow> \<not> isDirectContext k))"
| "noIntrinsicUsage (Collection ty tg r its) =
     (plainTag tg \<and> (\<forall>item\<in>set its. noIntrinsicUsage item))"
| "noIntrinsicUsage (Pair tg k kr v) =
     (plainTag tg \<and> \<not> isDirectContext k
      \<and> (case v of None \<Rightarrow> True | Some n \<Rightarrow> noIntrinsicUsage n))"

text \<open>A tree without a child-stack resource: no map in it has the child-stack type.\<close>

fun noChildStack :: "Node \<Rightarrow> bool" where
  "noChildStack (Scalar ty tg sk r v) = True"
| "noChildStack (Collection ty tg r its) =
     (yamlGet (Collection ty tg r its) ''Type'' \<noteq> Inr (Str ''AWS::CloudFormation::Stack'')
      \<and> (\<forall>item\<in>set its. noChildStack item))"
| "noChildStack (Pair tg k kr v) = (case v of None \<Rightarrow> True | Some n \<Rightarrow> noChildStack n)"

text \<open>A traversal that found nothing: it raised, or it returned the empty list.\<close>

definition quietResult :: "error + 'a list \<Rightarrow> bool" where
  "quietResult res = (case res of Inl e \<Rightarrow> True | Inr xs \<Rightarrow> xs = [])"

text \<open>
  A child-stack node pair with a literal template URL and a \<open>Parameters\<close> block that holds
  a collection: the template URL, the offset of the key \<open>Parameters\<close> and the items of the
  block.
\<close>

definition parametersBlock :: "Node \<Rightarrow> (string \<times> nat \<times> Node list) option" where
  "parametersBlock subStackNodePair =
     (case pairValue subStackNodePair of
        None \<Rightarrow> None
      | Some subStackNodeValue \<Rightarrow>
          (case getNodeItemByStringKey subStackNodeValue ''Properties'' of
             None \<Rightarrow> None
           | Some propertiesItem \<Rightarrow>
               (case getNodeValueIfPair propertiesItem of
                  None \<Rightarrow> None
                | Some properties \<Rightarrow>
                    (case yamlGet properties ''TemplateURL'' of
                       Inr (Str templateUrl) \<Rightarrow>
                         (case getNodeItemByStringKey properties ''Parameters'' of
                            Some (Pair ptg pk keyRange0 (Some (Collection cty ctg cr supplied))) \<Rightarrow>
                              Some (templateUrl, keyRange0, supplied)
                          | _ \<Rightarrow> None)
                     | _ \<Rightarrow> None))))"

section \<open>The position mapper against the specification\<close>

lemma lineReturnMatches_length:
  "length (lineReturnMatches i s) = length (filter (\<lambda>c. c = CHR 0x0A) s)"
  by (induction i s rule: lineReturnMatches.induct) auto

lemma lineReturnMatches_empty:
  "lineReturnMatches i s = [] \<longleftrightarrow> CHR 0x0A \<notin> set s"
  by (induction i s rule: lineReturnMatches.induct) auto

lemma afterLast_Cons:
  "length (c # s) - length (takeWhile P (rev (c # s))) =
     (if \<forall>x\<in>set s. P x then (if P c then 0 else 1)
      else Suc (length s - length (takeWhile P (rev s))))"
proof (cases "\<forall>x\<in>set s. P x")
  case True
  then have "takeWhile P (rev s @ [c]) = rev s @ takeWhile P [c]"
    by (intro takeWhile_append2) simp
  with True show ?thesis by simp
next
  case False
  then obtain x where "x \<in> set (rev s)" "\<not> P x" by auto
  then have "takeWhile P (rev s @ [c]) = takeWhile P (rev s)"
    by (rule takeWhile_append1)
  moreover have "length (takeWhile P (rev s)) \<le> length s"
    using length_takeWhile_le [of P "rev s"] by simp
  ultimately have "length (c # s) - length (takeWhile P (rev (c # s)))
      = Suc (length s - length (takeWhile P (rev s)))"
    by (simp add: Suc_diff_le)
  with False show ?thesis by (simp only: if_False)
qed

lemma lineReturnMatches_last:
  "lineReturnMatches i s \<noteq> [] \<Longrightarrow>
   fst (last (lineReturnMatches i s)) + length (snd (last (lineReturnMatches i s)))
     = i + (length s - length (takeWhile (\<lambda>c. c \<noteq> CHR 0x0A) (rev s)))"
proof (induction i s rule: lineReturnMatches.induct)
  case (1 i)
  then show ?case by simp
next
  case (2 i c)
  then show ?case by (auto split: if_splits)
next
  case (3 i c d cs)
  let ?P = "\<lambda>c. c \<noteq> CHR 0x0A"
  have k: "length (c # d # cs) - length (takeWhile ?P (rev (c # d # cs))) =
      (if CHR 0x0A \<in> set cs then Suc (Suc (length cs - length (takeWhile ?P (rev cs))))
       else if d = CHR 0x0A then 2 else if c = CHR 0x0A then 1 else 0)"
    unfolding afterLast_Cons [of c "d # cs"] afterLast_Cons [of d cs] by auto
  have k2: "length (d # cs) - length (takeWhile ?P (rev (d # cs))) =
      (if CHR 0x0A \<in> set cs then Suc (length cs - length (takeWhile ?P (rev cs)))
       else if d = CHR 0x0A then 1 else 0)"
    unfolding afterLast_Cons [of d cs] by auto
  show ?case
  proof (cases "c = CHR 0x0D \<and> d = CHR 0x0A")
    case True
    then show ?thesis
      using "3.IH"(1) unfolding k
      by (cases "CHR 0x0A \<in> set cs") (simp_all add: lineReturnMatches_empty)
  next
    case nocr: False
    show ?thesis
    proof (cases "c = CHR 0x0A")
      case True
      show ?thesis
      proof (cases "CHR 0x0A \<in> set (d # cs)")
        case inl: True
        then have "lineReturnMatches (i + 1) (d # cs) \<noteq> []"
          by (simp only: lineReturnMatches_empty not_not)
        then show ?thesis
          using "3.IH"(2) [OF nocr True] nocr True inl unfolding k k2
          by (auto split: if_splits)
      next
        case nol: False
        then have "lineReturnMatches (i + 1) (d # cs) = []"
          by (simp only: lineReturnMatches_empty not_False_eq_True)
        then show ?thesis
          using nocr True nol unfolding k by auto
      qed
    next
      case False
      have eq: "lineReturnMatches i (c # d # cs) = lineReturnMatches (i + 1) (d # cs)"
        by (simp only: lineReturnMatches.simps nocr False if_False)
      with "3.prems" have ne: "lineReturnMatches (i + 1) (d # cs) \<noteq> []" by simp
      then have "CHR 0x0A \<in> set (d # cs)"
        by (simp only: lineReturnMatches_empty not_not)
      then show ?thesis
        using "3.IH"(3) [OF nocr False ne] False unfolding eq k k2
        by (auto split: if_splits)
    qed
  qed
qed

text \<open>
  Behind at least one line terminator the method returns what the specification asks for.
\<close>

lemma getRowColumnPosition_refines:
  "0 < terminatorsBefore text absoluteOffset \<Longrightarrow>
   getRowColumnPosition text absoluteOffset = Inr (resolve_spec text absoluteOffset)"
proof -
  assume pos: "0 < terminatorsBefore text absoluteOffset"
  let ?ms = "lineReturnMatches 0 (take absoluteOffset text)"
  from pos have ne: "?ms \<noteq> []"
    using lineReturnMatches_length [of 0 "take absoluteOffset text"]
    by (auto simp: terminatorsBefore_def)
  then obtain m ms where ms: "?ms = m # ms" by (cases ?ms) auto
  have "fst (last ?ms) + length (snd (last ?ms)) = afterLastTerminator text absoluteOffset"
    using lineReturnMatches_last [OF ne] by (simp add: afterLastTerminator_def)
  moreover have "length ?ms = terminatorsBefore text absoluteOffset"
    by (simp add: lineReturnMatches_length terminatorsBefore_def)
  ultimately show ?thesis
    using pos ms by (simp add: getRowColumnPosition_def resolve_spec_def Let_def)
qed

text \<open>
  With no line terminator before the offset the match list is empty and the method raises.
\<close>

lemma getRowColumnPosition_no_terminator:
  "terminatorsBefore text absoluteOffset = 0 \<Longrightarrow>
   getRowColumnPosition text absoluteOffset = Inl TypeError"
proof -
  assume "terminatorsBefore text absoluteOffset = 0"
  then have "lineReturnMatches 0 (take absoluteOffset text) = []"
    using lineReturnMatches_length [of 0 "take absoluteOffset text"]
    by (simp add: terminatorsBefore_def)
  then show ?thesis by (simp add: getRowColumnPosition_def)
qed

text \<open>
  C1. The claim asks that an offset on the first line still gets a result, with the column
  equal to the offset. The method has no branch for the empty match list: in the one-line
  template \<open>{Resources: {A: !Ref B}}\<close>, at the offset 16 of the \<open>!Ref\<close> node, it raises a
  TypeError, where the specification's position is line 0, column 16.
\<close>

theorem getRowColumnPosition_first_line_raises:
  "getRowColumnPosition ''{Resources: {A: !Ref B}}'' 16 = Inl TypeError
   \<and> resolve_spec ''{Resources: {A: !Ref B}}'' 16 = \<lparr>line = 0, column = 16\<rparr>"
  by (simp add: getRowColumnPosition_def resolve_spec_def terminatorsBefore_def)

section \<open>What the extractor returns\<close>

lemma getSub_Scalar:
  "getSubNodesWhichReference (Scalar ty tg sk r v) =
     (if ty = PLAIN \<or> ty = QUOTE_DOUBLE then Inr (inspectScalar ty tg sk r v) else Inr [])"
  by (simp add: getSubNodesWhichReference.simps)

lemma getSub_Collection:
  "getSubNodesWhichReference (Collection ty tg r its) =
     (if ty = FLOW_SEQ then
        (case its of
           [] \<Rightarrow> Inr []
         | firstSubNode # rest \<Rightarrow>
             flattenResults
               (getSubNodesWhichReference (setTagIfUnset tg firstSubNode)
                # map getSubNodesWhichReference rest))
      else if ty = MAP then
        flattenResults (map (\<lambda>item. getSubNodesWhichReference (setTagIfUnset tg item)) its)
      else Inr [])"
  by (subst getSubNodesWhichReference.simps) simp

text \<open>
  The three tests of the node type leave the other forms out: a scalar that is neither plain
  nor double-quoted is not inspected, and a collection that is neither a flow sequence nor
  a block map is not entered.
\<close>

lemma other_scalars_not_inspected:
  "ty \<noteq> PLAIN \<Longrightarrow> ty \<noteq> QUOTE_DOUBLE
   \<Longrightarrow> getSubNodesWhichReference (Scalar ty tg sk r v) = Inr []"
  by (simp add: getSub_Scalar)

lemma other_collections_not_entered:
  "ty \<noteq> FLOW_SEQ \<Longrightarrow> ty \<noteq> MAP
   \<Longrightarrow> getSubNodesWhichReference (Collection ty tg r its) = Inr []"
  by (simp add: getSub_Collection)

lemma dropWhile_closing:
  "CHR ''}'' \<in> set rest \<Longrightarrow>
   rest = takeWhile (\<lambda>x. x \<noteq> CHR ''}'') rest @ CHR ''}''
            # drop (Suc (length (takeWhile (\<lambda>x. x \<noteq> CHR ''}'') rest))) rest"
proof -
  assume a: "CHR ''}'' \<in> set rest"
  let ?P = "\<lambda>x. x \<noteq> CHR ''}''"
  have ne: "dropWhile ?P rest \<noteq> []" using a by (auto simp: dropWhile_eq_Nil_conv)
  then have hd: "hd (dropWhile ?P rest) = CHR ''}''"
    using hd_dropWhile [of ?P rest] by simp
  have "rest = takeWhile ?P rest @ dropWhile ?P rest" by simp
  also have "dropWhile ?P rest = CHR ''}'' # tl (dropWhile ?P rest)"
    using ne hd by (cases "dropWhile ?P rest") auto
  also have "tl (dropWhile ?P rest) = drop (Suc (length (takeWhile ?P rest))) rest"
    by (simp add: dropWhile_eq_drop drop_Suc tl_drop)
  finally show ?thesis .
qed

lemma subMatches_sound:
  "(i, m) \<in> set (subMatches j s) \<Longrightarrow>
   j \<le> i \<and> take (length m) (drop (i - j) s) = m
   \<and> (\<exists>k. m = ''${'' @ k @ ''}'' \<and> CHR ''}'' \<notin> set k)"
proof (induction j s rule: subMatches.induct)
  case (1 j)
  then show ?case by simp
next
  case (2 j c cs)
  let ?P = "\<lambda>x. x \<noteq> CHR ''}''"
  show ?case
  proof (cases "c = CHR ''$'' \<and> take 1 cs = ''{'' \<and> CHR ''}'' \<in> set (drop 1 cs)")
    case True
    define rest where "rest = drop 1 cs"
    define inner where "inner = takeWhile ?P rest"
    from True have cs: "cs = CHR ''{'' # rest"
      unfolding rest_def by (cases cs) auto
    from True have "CHR ''}'' \<in> set rest" unfolding rest_def by simp
    from dropWhile_closing [OF this]
    have rest: "rest = inner @ CHR ''}'' # drop (Suc (length inner)) rest"
      unfolding inner_def .
    have dr: "drop (length inner + 2) cs = drop (Suc (length inner)) rest"
      unfolding cs by simp
    have whole: "c # cs = (''${'' @ inner @ ''}'') @ drop (length inner + 2) cs"
      using True rest unfolding dr cs by simp
    have nin: "CHR ''}'' \<notin> set inner"
      unfolding inner_def by (auto dest: set_takeWhileD)
    from "2.prems" True
    consider (here) "i = j" "m = ''${'' @ inner @ ''}''"
      | (later) "(i, m) \<in> set (subMatches (j + length inner + 3) (drop (length inner + 2) cs))"
      unfolding inner_def rest_def by (auto simp: Let_def)
    then show ?thesis
    proof cases
      case here
      have "take (length m) (c # cs) = m"
        by (subst whole) (simp add: here)
      then show ?thesis using here nin by auto
    next
      case later
      from "2.IH"(1) [OF True, of inner] later
      have ih: "j + length inner + 3 \<le> i"
        "take (length m) (drop (i - (j + length inner + 3)) (drop (length inner + 2) cs)) = m"
        "\<exists>k. m = ''${'' @ k @ ''}'' \<and> CHR ''}'' \<notin> set k"
        unfolding inner_def rest_def by auto
      define p where "p = ''${'' @ inner @ ''}''"
      define t where "t = drop (length inner + 2) cs"
      have lp: "length p = length inner + 3" unfolding p_def by simp
      have "drop (i - j) (p @ t) = drop (i - j - length p) t"
        using ih(1) lp by simp
      also have "i - j - length p = i - (j + length inner + 3)"
        using lp by simp
      finally have "drop (i - j) (c # cs) = drop (i - (j + length inner + 3)) (drop (length inner + 2) cs)"
        unfolding whole p_def t_def .
      then show ?thesis using ih by auto
    qed
  next
    case False
    with "2.prems" have "(i, m) \<in> set (subMatches (j + 1) cs)" by (auto simp: Let_def)
    from "2.IH"(2) [OF False this]
    have ih: "j + 1 \<le> i" "take (length m) (drop (i - (j + 1)) cs) = m"
      "\<exists>k. m = ''${'' @ k @ ''}'' \<and> CHR ''}'' \<notin> set k" by auto
    have "i - j = Suc (i - (j + 1))" using ih(1) by simp
    then have "drop (i - j) (c # cs) = drop (i - (j + 1)) cs"
      by (simp only: drop_Suc_Cons)
    then show ?thesis using ih by auto
  qed
qed

lemma flattenResults_Inr: "flattenResults (map Inr rs) = Inr (concat rs)"
  by (induction rs) auto

text \<open>
  C2 (amended). For every plain or double-quoted scalar tagged \<open>!Sub\<close> the extractor
  returns the node with one Reference of kind Sub per match of the placeholder expression
  in its value, in order: the key is the match without its braces and the offset is the
  node's start + 5 + 2 + the quote offset (0 plain, 1 double-quoted) + the match's index.
  Every match is the text \<open>${key}\<close> found at its index in the value, with no closing brace
  in the key. With no match the node has no Reference and nothing is raised.
\<close>

theorem sub_scalar_references:
  assumes "ty = PLAIN \<or> ty = QUOTE_DOUBLE"
  shows "getSubNodesWhichReference (Scalar ty (Some ''!Sub'') sk r v) =
           Inr [map (\<lambda>(index, m).
                      \<lparr>rtype = SUB, referencedKey = stripBraces m,
                       absoluteKeyPosition = r + 5 + 2 + (if ty = QUOTE_DOUBLE then 1 else 0) + index\<rparr>)
                    (subMatches 0 v)]
         \<and> (\<forall>(index, m) \<in> set (subMatches 0 v).
               take (length m) (drop index v) = m
               \<and> m = ''${'' @ stripBraces m @ ''}'' \<and> CHR ''}'' \<notin> set (stripBraces m))"
proof -
  have "orElse (Some ''!Sub'') sk = Some ''!Sub''" by (simp add: orElse_def truthy_def)
  then have "inspectScalar ty (Some ''!Sub'') sk r v =
      [map (\<lambda>(index, m).
              \<lparr>rtype = SUB, referencedKey = stripBraces m,
               absoluteKeyPosition = r + 5 + nodeTypeToSubOffset ty + 2 + index\<rparr>)
           (subMatches 0 v)]"
    by (simp add: inspectScalar_def)
  moreover have "nodeTypeToSubOffset ty = (if ty = QUOTE_DOUBLE then 1 else 0)"
    using assms by auto
  ultimately have first: "getSubNodesWhichReference (Scalar ty (Some ''!Sub'') sk r v) =
           Inr [map (\<lambda>(index, m).
                      \<lparr>rtype = SUB, referencedKey = stripBraces m,
                       absoluteKeyPosition = r + 5 + 2 + (if ty = QUOTE_DOUBLE then 1 else 0) + index\<rparr>)
                    (subMatches 0 v)]"
    using assms by (auto simp: getSub_Scalar)
  have "take (length m) (drop index v) = m
        \<and> m = ''${'' @ stripBraces m @ ''}'' \<and> CHR ''}'' \<notin> set (stripBraces m)"
    if "(index, m) \<in> set (subMatches 0 v)" for index m
    using subMatches_sound [OF that] by (auto simp: stripBraces_def)
  with first show ?thesis by blast
qed

theorem sub_scalar_references_witness:
  "getSubNodesWhichReference (Scalar QUOTE_DOUBLE (Some ''!Sub'') None 10 ''a${B}-${C}'') =
     Inr [[\<lparr>rtype = SUB, referencedKey = ''B'', absoluteKeyPosition = 19\<rparr>,
           \<lparr>rtype = SUB, referencedKey = ''C'', absoluteKeyPosition = 24\<rparr>]]
   \<and> getSubNodesWhichReference (Scalar PLAIN (Some ''!Sub'') None 10 ''plain text'') = Inr [[]]"
proof -
  have m1: "subMatches 0 ''a${B}-${C}'' = [(1, ''${B}''), (6, ''${C}'')]"
    by (simp add: Let_def)
  have m2: "subMatches 0 ''plain text'' = []"
    by simp
  show ?thesis
    using sub_scalar_references [of QUOTE_DOUBLE None 10 "''a${B}-${C}''"]
      sub_scalar_references [of PLAIN None 10 "''plain text''"]
    by (simp add: m1 m2 stripBraces_def)
qed

text \<open>
  C2 as stated speaks of every scalar tagged \<open>!Sub\<close>. The inspection is behind a guard on
  the node types \<open>PLAIN\<close> and \<open>QUOTE_DOUBLE\<close>: the single-quoted scalar \<open>!Sub '${A}'\<close> has
  one placeholder and yields no Reference.
\<close>

theorem sub_scalar_single_quoted_counterexample:
  "subMatches 0 ''${A}'' = [(0, ''${A}'')]
   \<and> getSubNodesWhichReference (Scalar QUOTE_SINGLE (Some ''!Sub'') None 0 ''${A}'') = Inr []"
  by (simp add: getSub_Scalar Let_def)

text \<open>
  C3 (amended). For every plain or double-quoted scalar tagged \<open>!Ref\<close>: when the value does
  not start with \<open>AWS::\<close> the extractor returns exactly one Reference of kind Ref at the
  node's start + 5, and when it does, none.
\<close>

theorem ref_scalar_reference:
  assumes "ty = PLAIN \<or> ty = QUOTE_DOUBLE"
  shows "getSubNodesWhichReference (Scalar ty (Some ''!Ref'') sk r v) =
           (if take 5 v = ''AWS::'' then Inr []
            else Inr [[\<lparr>rtype = REF, referencedKey = v, absoluteKeyPosition = r + 5\<rparr>]])"
proof -
  have "orElse (Some ''!Ref'') sk = Some ''!Ref''" by (simp add: orElse_def truthy_def)
  then show ?thesis using assms by (auto simp: getSub_Scalar inspectScalar_def)
qed

theorem ref_scalar_reference_witness:
  "getSubNodesWhichReference (Scalar PLAIN (Some ''!Ref'') None 30 ''Bucket'') =
     Inr [[\<lparr>rtype = REF, referencedKey = ''Bucket'', absoluteKeyPosition = 35\<rparr>]]
   \<and> getSubNodesWhichReference (Scalar QUOTE_DOUBLE (Some ''!Ref'') None 30 ''AWS::Region'') = Inr []"
  using ref_scalar_reference [of PLAIN None 30 "''Bucket''"]
    ref_scalar_reference [of QUOTE_DOUBLE None 30 "''AWS::Region''"]
  by simp

text \<open>
  C3 as stated speaks of every scalar tagged \<open>!Ref\<close>: the single-quoted \<open>!Ref 'Bucket'\<close>
  yields no Reference.
\<close>

theorem ref_scalar_single_quoted_counterexample:
  "take 5 ''Bucket'' \<noteq> ''AWS::''
   \<and> getSubNodesWhichReference (Scalar QUOTE_SINGLE (Some ''!Ref'') None 30 ''Bucket'') = Inr []"
  by (simp add: getSub_Scalar)

text \<open>
  C4 (amended). For every plain or double-quoted scalar: when its tag context (the tag it
  carries after inheritance or, without one, its key name) is \<open>!If\<close>, \<open>!FindInMap\<close> or
  \<open>DependsOn\<close>, the extractor returns exactly one Reference of the corresponding kind at the
  node's start offset; when it is tagged \<open>!GetAtt\<close>, exactly one Reference of kind GetAtt at
  the node's start + 8.
\<close>

theorem direct_name_and_getatt_references:
  assumes "ty = PLAIN \<or> ty = QUOTE_DOUBLE"
  shows "(orElse tg sk = Some t \<and> nodeTagToReferenceType t = Some kind \<longrightarrow>
            getSubNodesWhichReference (Scalar ty tg sk r v) =
              Inr [[\<lparr>rtype = kind, referencedKey = v, absoluteKeyPosition = r\<rparr>]])
         \<and> getSubNodesWhichReference (Scalar ty (Some ''!GetAtt'') sk r v) =
              Inr [[\<lparr>rtype = GET_ATT, referencedKey = v, absoluteKeyPosition = r + 8\<rparr>]]"
proof -
  have "orElse (Some ''!GetAtt'') sk = Some ''!GetAtt''" by (simp add: orElse_def truthy_def)
  then have g: "getSubNodesWhichReference (Scalar ty (Some ''!GetAtt'') sk r v) =
              Inr [[\<lparr>rtype = GET_ATT, referencedKey = v, absoluteKeyPosition = r + 8\<rparr>]]"
    using assms by (auto simp: getSub_Scalar inspectScalar_def)
  have "getSubNodesWhichReference (Scalar ty tg sk r v) =
              Inr [[\<lparr>rtype = kind, referencedKey = v, absoluteKeyPosition = r\<rparr>]]"
    if "orElse tg sk = Some t" "nodeTagToReferenceType t = Some kind"
  proof -
    from that(2) have "t = ''!If'' \<or> t = ''!FindInMap'' \<or> t = ''DependsOn''"
      by (auto simp: nodeTagToReferenceType_def split: if_splits)
    with that assms show ?thesis
      by (auto simp: getSub_Scalar inspectScalar_def)
  qed
  with g show ?thesis by blast
qed

theorem direct_name_and_getatt_references_witness:
  "getSubNodesWhichReference (setTagIfUnset (Some ''!If'') (Scalar PLAIN None None 12 ''IsProd'')) =
     Inr [[\<lparr>rtype = IF, referencedKey = ''IsProd'', absoluteKeyPosition = 12\<rparr>]]
   \<and> getSubNodesWhichReference (Pair None ''DependsOn'' 40 (Some (Scalar PLAIN None None 51 ''Queue''))) =
     Inr [[\<lparr>rtype = DEPENDS_ON, referencedKey = ''Queue'', absoluteKeyPosition = 51\<rparr>]]
   \<and> getSubNodesWhichReference (Scalar PLAIN (Some ''!GetAtt'') None 7 ''Child.Outputs.Arn'') =
     Inr [[\<lparr>rtype = GET_ATT, referencedKey = ''Child.Outputs.Arn'', absoluteKeyPosition = 15\<rparr>]]"
proof -
  have a: "orElse (Some ''!If'') None = Some ''!If'' \<and> nodeTagToReferenceType ''!If'' = Some IF"
    by (simp add: orElse_def truthy_def nodeTagToReferenceType_def)
  have b: "orElse None (Some ''DependsOn'') = Some ''DependsOn''
           \<and> nodeTagToReferenceType ''DependsOn'' = Some DEPENDS_ON"
    by (simp add: orElse_def truthy_def nodeTagToReferenceType_def)
  have p: "getSubNodesWhichReference (Pair None ''DependsOn'' 40 (Some (Scalar PLAIN None None 51 ''Queue'')))
           = getSubNodesWhichReference (Scalar PLAIN None (Some ''DependsOn'') 51 ''Queue'')"
    by (simp add: getSubNodesWhichReference.simps truthy_def)
  show ?thesis
    using direct_name_and_getatt_references [of PLAIN "Some ''!If''" None "''!If''" IF 12 "''IsProd''"]
      direct_name_and_getatt_references [of PLAIN None "Some ''DependsOn''" "''DependsOn''" DEPENDS_ON 51 "''Queue''"]
      direct_name_and_getatt_references [of PLAIN None None _ _ 7 "''Child.Outputs.Arn''"]
      a b p
    by (simp add: truthy_def)
qed

text \<open>
  C4 as stated speaks of every scalar: a single-quoted scalar under the key \<open>DependsOn\<close>
  and a single-quoted scalar tagged \<open>!GetAtt\<close> yield no Reference.
\<close>

theorem direct_name_single_quoted_counterexample:
  "orElse None (Some ''DependsOn'') = Some ''DependsOn''
   \<and> getSubNodesWhichReference (Scalar QUOTE_SINGLE None (Some ''DependsOn'') 51 ''Queue'') = Inr []
   \<and> getSubNodesWhichReference (Scalar QUOTE_SINGLE (Some ''!GetAtt'') None 7 ''Child.Outputs.Arn'') = Inr []"
  by (simp add: getSub_Scalar orElse_def truthy_def)

text \<open>
  C5 (amended). For every flow sequence: the first child takes the sequence's tag when it
  has none of its own and is left as it is otherwise, the extractor recurses into every
  child in order, and the result is the concatenation of the children's results (the
  first child that raises ends the traversal).
\<close>

theorem flow_sequence_traversal:
  "getSubNodesWhichReference (Collection FLOW_SEQ tg r its) =
     flattenResults
       (map getSubNodesWhichReference
          (case its of [] \<Rightarrow> [] | firstSubNode # rest \<Rightarrow> setTagIfUnset tg firstSubNode # rest))
   \<and> (\<forall>child. tagOf (setTagIfUnset tg child) = (if truthy (tagOf child) then tagOf child else tg))
   \<and> (\<forall>child. truthy (tagOf child) \<longrightarrow> setTagIfUnset tg child = child)
   \<and> (\<forall>rs. flattenResults (map Inr rs) = Inr (concat rs :: Reference list list))"
proof -
  have a: "tagOf (setTagIfUnset tg child) = (if truthy (tagOf child) then tagOf child else tg)"
    for child by (cases child) auto
  have b: "truthy (tagOf child) \<longrightarrow> setTagIfUnset tg child = child"
    for child by (cases child) auto
  have c: "getSubNodesWhichReference (Collection FLOW_SEQ tg r its) =
     flattenResults
       (map getSubNodesWhichReference
          (case its of [] \<Rightarrow> [] | firstSubNode # rest \<Rightarrow> setTagIfUnset tg firstSubNode # rest))"
    by (simp add: getSub_Collection split: list.splits)
  from a b c show ?thesis
    by (simp add: flattenResults_Inr)
qed

theorem flow_sequence_traversal_witness:
  "getSubNodesWhichReference
     (Collection FLOW_SEQ (Some ''!If'') 3
        [Scalar PLAIN None None 8 ''IsProd'', Scalar PLAIN (Some ''!Ref'') None 16 ''A'',
         Scalar PLAIN (Some ''!Ref'') None 24 ''B'']) =
     Inr [[\<lparr>rtype = IF, referencedKey = ''IsProd'', absoluteKeyPosition = 8\<rparr>],
          [\<lparr>rtype = REF, referencedKey = ''A'', absoluteKeyPosition = 21\<rparr>],
          [\<lparr>rtype = REF, referencedKey = ''B'', absoluteKeyPosition = 29\<rparr>]]"
  using flow_sequence_traversal [of "Some ''!If''" 3
        "[Scalar PLAIN None None 8 ''IsProd'', Scalar PLAIN (Some ''!Ref'') None 16 ''A'',
         Scalar PLAIN (Some ''!Ref'') None 24 ''B'']"]
  by (simp add: getSub_Scalar inspectScalar_def orElse_def truthy_def nodeTagToReferenceType_def)

text \<open>
  C5 as stated speaks of every sequence. The traversal is behind a guard on the node type
  \<open>FLOW_SEQ\<close>: a block sequence is not entered, and the \<open>!Ref\<close> scalar that is its only
  child, which alone yields a Reference, yields none inside it.
\<close>

theorem block_sequence_counterexample:
  "getSubNodesWhichReference (Scalar PLAIN (Some ''!Ref'') None 16 ''A'') =
     Inr [[\<lparr>rtype = REF, referencedKey = ''A'', absoluteKeyPosition = 21\<rparr>]]
   \<and> getSubNodesWhichReference
        (Collection SEQ None 3 [Scalar PLAIN (Some ''!Ref'') None 16 ''A'']) = Inr []"
  by (simp add: getSub_Scalar getSub_Collection inspectScalar_def orElse_def truthy_def)

section \<open>Evaluating a pass\<close>

text \<open>
  The extractor and the search for child stacks on a node of each form, for the
  evaluation of a pass over a given document.
\<close>

lemma getSub_Pair:
  "getSubNodesWhichReference (Pair tg k kr v) =
     (case v of
        None \<Rightarrow> Inl TypeError
      | Some (Pair tg' k' kr' v') \<Rightarrow> Inr []
      | Some (Scalar ty stg sk r sv) \<Rightarrow>
          getSubNodesWhichReference (inPairContext tg k (Scalar ty stg sk r sv))
      | Some (Collection ty ctg r its) \<Rightarrow>
          getSubNodesWhichReference (inPairContext tg k (Collection ty ctg r its)))"
  by (subst getSubNodesWhichReference.simps)
     (simp add: getSub_Scalar getSub_Collection split: option.splits Node.splits)

lemma getSubStackNodePairs_Scalar:
  "getSubStackNodePairs (Scalar ty tg sk r v) = Inr []"
  by (simp add: getSubStackNodePairs.simps)

lemma getSubStackNodePairs_Collection:
  "getSubStackNodePairs (Collection ty tg r its) =
     (if ty = MAP then
        (if yamlGet (Collection ty tg r its) ''Type'' = Inr (Str ''AWS::CloudFormation::Stack'')
         then Inr [Collection ty tg r its]
         else flattenResults (map getSubStackNodePairs its))
      else Inr [])"
  by (subst getSubStackNodePairs.simps) simp

lemma getSubStackNodePairs_Pair:
  "getSubStackNodePairs (Pair tg k kr v) =
     (case v of
        None \<Rightarrow> Inl TypeError
      | Some (Collection ty ctg r its) \<Rightarrow>
          (if ty = MAP then
             (if yamlGet (Collection ty ctg r its) ''Type''
                   = Inr (Str ''AWS::CloudFormation::Stack'')
              then Inr [Pair tg k kr v]
              else flattenResults (map getSubStackNodePairs its))
           else Inr [])
      | Some (Scalar ty stg sk r sv) \<Rightarrow> Inr []
      | Some (Pair tg' k' kr' v') \<Rightarrow> Inr [])"
  by (subst getSubStackNodePairs.simps) (simp split: option.splits Node.splits)

lemmas schema_defs = resolveScalar_def isDigits_def isZeros_def unsignedPart_def lowerCase_def
  isExp_def isFloat_def hasFraction_def mantissa_def exponentPart_def integerDigits_def
  pointAndFraction_def fractionDigits_def isExponentMark_def isDecimalDigit_def isZero_def
  digitsValue_def exponentValue_def

lemmas eval_defs = schema_defs checkYaml_def getReferenceables_def findSubStackNodePairs_def
  getSubStackNodePairs_Scalar getSubStackNodePairs_Collection getSubStackNodePairs_Pair
  getSubStackReferenceables_def loadSubStack_def collectSubStack_def addDeclaredParameter_def
  reportLoadFailure_def loadFailureDiagnostic_def
  parentPathOf_def getNodesWhichReference_def documentGet_def
  getSub_Scalar getSub_Collection getSub_Pair inspectScalar_def orElse_def truthy_def
  nodeTagToReferenceType_def stripBraces_def
  buildInvalidReferenceDiagnostics_def checkReference_def localReferenceables_def
  referenceTypeToDiagnosticMessage_def
  buildInvalidSubStackParameterDiagnostics_def checkSubStackNodePair_def
  matchSubStackParameters_def checkSuppliedParameter_def unknownParameterDiagnostic_def
  missingParameterDiagnostic_def addDiagnostic_def createDiagnostic_def
  getRowColumnPosition_def Let_def

section \<open>What the resolver reports\<close>

text \<open>
  The position mapper returns at the offsets behind the first line, and raises at the
  others.
\<close>

lemma behindFirstLine_terminators:
  "behindFirstLine fullText absoluteOffset \<longleftrightarrow> 0 < terminatorsBefore fullText absoluteOffset"
  by (simp add: behindFirstLine_def terminatorsBefore_def filter_empty_conv)

lemma getRowColumnPosition_returns:
  "behindFirstLine fullText absoluteOffset \<Longrightarrow>
   \<exists>position. getRowColumnPosition fullText absoluteOffset = Inr position"
  using getRowColumnPosition_refines [of fullText absoluteOffset]
  by (simp add: behindFirstLine_terminators)

lemma getRowColumnPosition_raises:
  "\<not> behindFirstLine fullText absoluteOffset \<Longrightarrow>
   getRowColumnPosition fullText absoluteOffset = Inl TypeError"
  using getRowColumnPosition_no_terminator [of fullText absoluteOffset]
  by (simp add: behindFirstLine_terminators)

lemma forEach_append:
  "forEach f (xs @ ys) s =
     (case forEach f xs s of
        (s', None) \<Rightarrow> forEach f ys s'
      | (s', Some e) \<Rightarrow> (s', Some e))"
  by (induction xs arbitrary: s) (auto split: prod.splits option.splits)

lemma forEach_concat:
  "forEach (\<lambda>s xs. forEach f xs s) xss s = forEach f (concat xss) s"
  by (induction xss arbitrary: s) (auto simp: forEach_append split: prod.splits option.splits)

text \<open>
  The inner loop checks the references in order as long as their positions lie behind the
  first line, and adds the diagnostic of each one whose check fails. At the first
  reference on the first line the mapper raises: that reference and the ones behind it
  are not checked.
\<close>

lemma checkReference_loop:
  "forEach (checkReference fullText referenceables) references ds =
     (ds @ map (\<lambda>reference.
                  createDiagnostic
                    (projr (getRowColumnPosition fullText (absoluteKeyPosition reference)))
                    (length (referencedKey reference)) Error
                    (''Unable to find referenced variable, '' @ quoted (referencedKey reference)))
             (filter (unresolved referenceables)
                (takeWhile (\<lambda>reference. behindFirstLine fullText (absoluteKeyPosition reference))
                   references)),
      if \<forall>reference\<in>set references. behindFirstLine fullText (absoluteKeyPosition reference)
      then None else Some TypeError)"
proof (induction references arbitrary: ds)
  case Nil
  show ?case by simp
next
  case (Cons reference references)
  show ?case
  proof (cases "behindFirstLine fullText (absoluteKeyPosition reference)")
    case False
    then show ?thesis
      by (simp add: checkReference_def getRowColumnPosition_raises)
  next
    case True
    then obtain position where
      position: "getRowColumnPosition fullText (absoluteKeyPosition reference) = Inr position"
      using getRowColumnPosition_returns by blast
    have step: "checkReference fullText referenceables ds reference =
        (if unresolved referenceables reference
         then ds @ [createDiagnostic position (length (referencedKey reference)) Error
                      (''Unable to find referenced variable, ''
                         @ quoted (referencedKey reference))]
         else ds, None)"
      by (simp add: checkReference_def position unresolved_def localReferenceables_def
            referenceTypeToDiagnosticMessage_def addDiagnostic_def Let_def)
    show ?thesis
      using True by (simp add: step Cons.IH position)
  qed
qed

text \<open>
  The resolver as a whole: a GetAtt Reference is checked against the sub-stack outputs
  only, a Reference of any other kind against the union of the local Conditions, Mappings,
  Parameters and Resources names, and the References whose check fails get their Error
  diagnostic, in order, up to the first Reference on the first line of the text.
\<close>

lemma reference_resolution:
  "buildInvalidReferenceDiagnostics fullText referenceables nodesWhichReference ds =
     (ds @ map (\<lambda>reference.
                  createDiagnostic
                    (projr (getRowColumnPosition fullText (absoluteKeyPosition reference)))
                    (length (referencedKey reference)) Error
                    (''Unable to find referenced variable, '' @ quoted (referencedKey reference)))
             (filter (unresolved referenceables)
                (takeWhile (\<lambda>reference. behindFirstLine fullText (absoluteKeyPosition reference))
                   (concat nodesWhichReference))),
      if \<forall>reference\<in>set (concat nodesWhichReference).
            behindFirstLine fullText (absoluteKeyPosition reference)
      then None else Some TypeError)"
  unfolding buildInvalidReferenceDiagnostics_def forEach_concat
  by (rule checkReference_loop)

text \<open>
  C6. The claim asks for the Error diagnostic of every extracted Reference whose check
  fails. The resolver computes the position of a Reference before it checks it (line
  232), with the position mapper that raises on the first line of a text. In the template
  \<open>Resources: [!Ref B]\<close> the extractor finds the Ref Reference to \<open>B\<close> at the offset 17;
  \<open>B\<close> is no local name; the resolver raises a TypeError and records nothing, and the
  pass ends with an empty diagnostic list.
\<close>

theorem first_line_reference_not_reported:
  "getNodesWhichReference
     \<lparr>contents = Some (Collection MAP mapTag 0
        [Pair None ''Resources'' 0
           (Some (Collection FLOW_SEQ seqTag 11
              [Scalar PLAIN (Some ''!Ref'') None 12 ''B'']))]),
      errors = []\<rparr>
     = Inr [[\<lparr>rtype = REF, referencedKey = ''B'', absoluteKeyPosition = 17\<rparr>]]
   \<and> buildInvalidReferenceDiagnostics (''Resources: [!Ref B]'' @ [CHR 0x0A])
       \<lparr>parameters = [], resources = [None], mappings = [], conditions = [],
        subStackReferenceables = \<lparr>outputs = [], parametersByUrl = Map.empty\<rparr>\<rparr>
       [[\<lparr>rtype = REF, referencedKey = ''B'', absoluteKeyPosition = 17\<rparr>]] []
     = ([], Some TypeError)
   \<and> checkYaml (\<lambda>path. Inl ''{}'') ''/templates/a.yaml''
       (''Resources: [!Ref B]'' @ [CHR 0x0A])
       \<lparr>contents = Some (Collection MAP mapTag 0
          [Pair None ''Resources'' 0
             (Some (Collection FLOW_SEQ seqTag 11
                [Scalar PLAIN (Some ''!Ref'') None 12 ''B'']))]),
        errors = []\<rparr>
     = []"
  by (simp add: eval_defs)

text \<open>
  The same reference one line further down is reported: in the template that starts with
  an empty line the position mapper returns.
\<close>

lemma second_line_reference_reported:
  "checkYaml (\<lambda>path. Inl ''{}'') ''/templates/a.yaml''
     ([CHR 0x0A] @ ''Resources: [!Ref B]'' @ [CHR 0x0A])
     \<lparr>contents = Some (Collection MAP mapTag 1
        [Pair None ''Resources'' 1
           (Some (Collection FLOW_SEQ seqTag 12
              [Scalar PLAIN (Some ''!Ref'') None 13 ''B'']))]),
      errors = []\<rparr>
   = [\<lparr>startLine = 1, startColumn = 17, endLine = 1, endColumn = 18, severity = Error,
       message = ''Unable to find referenced variable, '' @ quoted ''B''\<rparr>]"
  by (simp add: eval_defs)

section \<open>What the sub-stack parameter matcher reports\<close>

text \<open>
  The loop over the supplied parameters, when every item is a pair whose key lies behind
  the first line: it raises nothing; it reports supplied parameters only, among them every
  one whose name is not declared; and it leaves declared parameters only, among them every
  one whose name was not supplied.
\<close>

lemma find_name_Some:
  "find (\<lambda>p. Some k = Some (parameterName p)) declared = Some m
   \<Longrightarrow> m \<in> set declared \<and> parameterName m = k"
  by (auto simp: find_Some_iff)

lemma find_name_None:
  "find (\<lambda>p. Some k = Some (parameterName p)) declared = None
   \<longleftrightarrow> k \<notin> parameterName ` set declared"
  by (auto simp: find_None_iff)

lemma supplied_step_unknown:
  "k \<notin> parameterName ` set declared \<Longrightarrow>
   getRowColumnPosition fullText kr = Inr position \<Longrightarrow>
   forEach (checkSuppliedParameter fullText) (Pair tg k kr v # its) (ds, declared)
     = forEach (checkSuppliedParameter fullText) its
         (ds @ [unknownParameterDiagnostic position k], declared)"
  using find_name_None [of k declared]
  by (simp add: checkSuppliedParameter_def addDiagnostic_def)

lemma supplied_step_known:
  "find (\<lambda>p. Some k = Some (parameterName p)) declared = Some m \<Longrightarrow>
   forEach (checkSuppliedParameter fullText) (Pair tg k kr v # its) (ds, declared)
     = forEach (checkSuppliedParameter fullText) its (ds, remove1 m declared)"
  by (simp add: checkSuppliedParameter_def)

lemma supplied_loop:
  assumes "\<forall>item\<in>set its. \<exists>tg k kr v. item = Pair tg k kr v \<and> behindFirstLine fullText kr"
  shows "\<exists>unknown remaining.
           (\<forall>ds. forEach (checkSuppliedParameter fullText) its (ds, declared)
                   = ((ds @ unknown, remaining), None))
         \<and> (\<forall>d\<in>set unknown. \<exists>tg k kr v position. Pair tg k kr v \<in> set its
                \<and> getRowColumnPosition fullText kr = Inr position
                \<and> d = unknownParameterDiagnostic position k)
         \<and> (\<forall>tg k kr v. Pair tg k kr v \<in> set its \<and> k \<notin> parameterName ` set declared
                \<longrightarrow> (\<exists>position. getRowColumnPosition fullText kr = Inr position
                       \<and> unknownParameterDiagnostic position k \<in> set unknown))
         \<and> set remaining \<subseteq> set declared
         \<and> (\<forall>p\<in>set declared. Some (parameterName p) \<notin> itemStringKey ` set its
                \<longrightarrow> p \<in> set remaining)
         \<and> (its = [] \<longrightarrow> unknown = [] \<and> remaining = declared)"
  using assms
proof (induction its arbitrary: declared)
  case Nil
  show ?case by simp
next
  case (Cons item its)
  from Cons.prems obtain tg k kr v where item: "item = Pair tg k kr v"
    and behind: "behindFirstLine fullText kr" by auto
  from behind obtain position where position: "getRowColumnPosition fullText kr = Inr position"
    using getRowColumnPosition_returns by blast
  from Cons.prems have rest:
    "\<forall>item\<in>set its. \<exists>tg k kr v. item = Pair tg k kr v \<and> behindFirstLine fullText kr" by simp
  let ?diag = "unknownParameterDiagnostic position k"
  show ?case
  proof (cases "find (\<lambda>p. Some k = Some (parameterName p)) declared")
    case None
    then have notin: "k \<notin> parameterName ` set declared"
      using find_name_None [of k declared] by blast
    from Cons.IH [OF rest, of declared]
    obtain unknown remaining where
      ih: "\<forall>ds. forEach (checkSuppliedParameter fullText) its (ds, declared)
             = ((ds @ unknown, remaining), None)"
      "\<forall>d\<in>set unknown. \<exists>tg k kr v position. Pair tg k kr v \<in> set its
                \<and> getRowColumnPosition fullText kr = Inr position
                \<and> d = unknownParameterDiagnostic position k"
      "\<forall>tg k kr v. Pair tg k kr v \<in> set its \<and> k \<notin> parameterName ` set declared
                \<longrightarrow> (\<exists>position. getRowColumnPosition fullText kr = Inr position
                       \<and> unknownParameterDiagnostic position k \<in> set unknown)"
      "set remaining \<subseteq> set declared"
      "\<forall>p\<in>set declared. Some (parameterName p) \<notin> itemStringKey ` set its
                \<longrightarrow> p \<in> set remaining"
      by blast
    have step: "\<forall>ds. forEach (checkSuppliedParameter fullText) (item # its) (ds, declared)
             = ((ds @ (?diag # unknown), remaining), None)"
      unfolding item supplied_step_unknown [OF notin position] using ih(1) by simp
    have p2: "\<forall>d\<in>set (?diag # unknown). \<exists>tg k kr v position. Pair tg k kr v \<in> set (item # its)
                \<and> getRowColumnPosition fullText kr = Inr position
                \<and> d = unknownParameterDiagnostic position k"
    proof
      fix d assume "d \<in> set (?diag # unknown)"
      then consider "d = ?diag" | "d \<in> set unknown" by auto
      then show "\<exists>tg k kr v position. Pair tg k kr v \<in> set (item # its)
                \<and> getRowColumnPosition fullText kr = Inr position
                \<and> d = unknownParameterDiagnostic position k"
      proof cases
        case 1
        with item position show ?thesis by auto
      next
        case 2
        with ih(2) obtain tg' k' kr' v' position' where
          "Pair tg' k' kr' v' \<in> set its" "getRowColumnPosition fullText kr' = Inr position'"
          "d = unknownParameterDiagnostic position' k'" by blast
        then show ?thesis by auto
      qed
    qed
    have p3: "\<forall>tg' k' kr' v'. Pair tg' k' kr' v' \<in> set (item # its)
                \<and> k' \<notin> parameterName ` set declared
                \<longrightarrow> (\<exists>position. getRowColumnPosition fullText kr' = Inr position
                       \<and> unknownParameterDiagnostic position k' \<in> set (?diag # unknown))"
    proof (intro allI impI)
      fix tg' k' kr' v'
      assume a: "Pair tg' k' kr' v' \<in> set (item # its) \<and> k' \<notin> parameterName ` set declared"
      then consider "Pair tg' k' kr' v' = item" | "Pair tg' k' kr' v' \<in> set its" by auto
      then show "\<exists>position. getRowColumnPosition fullText kr' = Inr position
                       \<and> unknownParameterDiagnostic position k' \<in> set (?diag # unknown)"
      proof cases
        case 1
        with item position show ?thesis by auto
      next
        case 2
        with a ih(3) obtain position' where
          "getRowColumnPosition fullText kr' = Inr position'"
          "unknownParameterDiagnostic position' k' \<in> set unknown" by blast
        then show ?thesis by auto
      qed
    qed
    have p5: "\<forall>p\<in>set declared. Some (parameterName p) \<notin> itemStringKey ` set (item # its)
                \<longrightarrow> p \<in> set remaining"
      using ih(5) by auto
    have p6: "item # its = [] \<longrightarrow> ?diag # unknown = [] \<and> remaining = declared" by simp
    from step p2 p3 ih(4) p5 p6 show ?thesis by blast
  next
    case (Some m)
    have m: "m \<in> set declared" "parameterName m = k"
      using find_name_Some [OF Some] by blast+
    from Cons.IH [OF rest, of "remove1 m declared"]
    obtain unknown remaining where
      ih: "\<forall>ds. forEach (checkSuppliedParameter fullText) its (ds, remove1 m declared)
             = ((ds @ unknown, remaining), None)"
      "\<forall>d\<in>set unknown. \<exists>tg k kr v position. Pair tg k kr v \<in> set its
                \<and> getRowColumnPosition fullText kr = Inr position
                \<and> d = unknownParameterDiagnostic position k"
      "\<forall>tg k kr v. Pair tg k kr v \<in> set its \<and> k \<notin> parameterName ` set (remove1 m declared)
                \<longrightarrow> (\<exists>position. getRowColumnPosition fullText kr = Inr position
                       \<and> unknownParameterDiagnostic position k \<in> set unknown)"
      "set remaining \<subseteq> set (remove1 m declared)"
      "\<forall>p\<in>set (remove1 m declared). Some (parameterName p) \<notin> itemStringKey ` set its
                \<longrightarrow> p \<in> set remaining"
      by blast
    have step: "\<forall>ds. forEach (checkSuppliedParameter fullText) (item # its) (ds, declared)
             = ((ds @ unknown, remaining), None)"
      unfolding item supplied_step_known [OF Some] using ih(1) by simp
    have sub: "set (remove1 m declared) \<subseteq> set declared" by (rule set_remove1_subset)
    have p2: "\<forall>d\<in>set unknown. \<exists>tg k kr v position. Pair tg k kr v \<in> set (item # its)
                \<and> getRowColumnPosition fullText kr = Inr position
                \<and> d = unknownParameterDiagnostic position k"
    proof
      fix d assume "d \<in> set unknown"
      with ih(2) obtain tg' k' kr' v' position' where
        "Pair tg' k' kr' v' \<in> set its" "getRowColumnPosition fullText kr' = Inr position'"
        "d = unknownParameterDiagnostic position' k'" by blast
      then show "\<exists>tg k kr v position. Pair tg k kr v \<in> set (item # its)
                \<and> getRowColumnPosition fullText kr = Inr position
                \<and> d = unknownParameterDiagnostic position k" by auto
    qed
    have p3: "\<forall>tg' k' kr' v'. Pair tg' k' kr' v' \<in> set (item # its)
                \<and> k' \<notin> parameterName ` set declared
                \<longrightarrow> (\<exists>position. getRowColumnPosition fullText kr' = Inr position
                       \<and> unknownParameterDiagnostic position k' \<in> set unknown)"
    proof (intro allI impI)
      fix tg' k' kr' v'
      assume a: "Pair tg' k' kr' v' \<in> set (item # its) \<and> k' \<notin> parameterName ` set declared"
      with m item have "Pair tg' k' kr' v' \<in> set its" by auto
      moreover from a sub have "k' \<notin> parameterName ` set (remove1 m declared)" by auto
      ultimately show "\<exists>position. getRowColumnPosition fullText kr' = Inr position
                       \<and> unknownParameterDiagnostic position k' \<in> set unknown"
        using ih(3) by blast
    qed
    have p4: "set remaining \<subseteq> set declared" using ih(4) sub by blast
    have p5: "\<forall>p\<in>set declared. Some (parameterName p) \<notin> itemStringKey ` set (item # its)
                \<longrightarrow> p \<in> set remaining"
    proof (intro ballI impI)
      fix p
      assume a: "p \<in> set declared" "Some (parameterName p) \<notin> itemStringKey ` set (item # its)"
      from a(2) item m have "p \<noteq> m" by auto
      with a(1) have "p \<in> set (remove1 m declared)" by simp
      moreover from a(2) have "Some (parameterName p) \<notin> itemStringKey ` set its" by simp
      ultimately show "p \<in> set remaining" using ih(5) by blast
    qed
    have p6: "item # its = [] \<longrightarrow> unknown = [] \<and> remaining = declared" by simp
    from step p2 p3 p4 p5 p6 show ?thesis by blast
  qed
qed

lemma missing_fold:
  "foldl (\<lambda>ds p. addDiagnostic ds (missingParameterDiagnostic pos p)) ds remaining
     = ds @ map (missingParameterDiagnostic pos) remaining"
  by (induction remaining arbitrary: ds) (simp_all add: addDiagnostic_def)


text \<open>
  One child stack: what the callback adds to any diagnostics it is given.
\<close>

lemma parametersBlock_parts:
  assumes "parametersBlock subStackNodePair = Some (templateUrl, keyRange0, supplied)"
  obtains subStackNodeValue propertiesItem properties ptg pk cty ctg cr where
    "pairValue subStackNodePair = Some subStackNodeValue"
    "getNodeItemByStringKey subStackNodeValue ''Properties'' = Some propertiesItem"
    "getNodeValueIfPair propertiesItem = Some properties"
    "yamlGet properties ''TemplateURL'' = Inr (Str templateUrl)"
    "getNodeItemByStringKey properties ''Parameters''
       = Some (Pair ptg pk keyRange0 (Some (Collection cty ctg cr supplied)))"
  using assms unfolding parametersBlock_def
  by (auto split: option.splits sum.splits Got.splits Node.splits)

lemma checkSubStackNodePair_report:
  assumes "parametersBlock subStackNodePair = Some (templateUrl, keyRange0, supplied)"
    and "parametersByUrl subStackRefs templateUrl = Some declared"
    and "behindFirstLine fullText keyRange0"
    and "\<forall>item\<in>set supplied. \<exists>tg k kr v. item = Pair tg k kr v \<and> behindFirstLine fullText kr"
  shows "\<exists>unknown remaining propertiesPosition.
           (\<forall>ds. checkSubStackNodePair fullText subStackRefs ds subStackNodePair
                   = (ds @ unknown
                        @ map (missingParameterDiagnostic propertiesPosition) remaining, None))
         \<and> getRowColumnPosition fullText keyRange0 = Inr propertiesPosition
         \<and> (\<forall>d\<in>set unknown. \<exists>tg k kr v position. Pair tg k kr v \<in> set supplied
                \<and> getRowColumnPosition fullText kr = Inr position
                \<and> d = unknownParameterDiagnostic position k)
         \<and> (\<forall>tg k kr v. Pair tg k kr v \<in> set supplied \<and> k \<notin> parameterName ` set declared
                \<longrightarrow> (\<exists>position. getRowColumnPosition fullText kr = Inr position
                       \<and> unknownParameterDiagnostic position k \<in> set unknown))
         \<and> set remaining \<subseteq> set declared
         \<and> (\<forall>p\<in>set declared. Some (parameterName p) \<notin> itemStringKey ` set supplied
                \<longrightarrow> p \<in> set remaining)
         \<and> (supplied = [] \<longrightarrow> unknown = [] \<and> remaining = declared)"
proof -
  from assms(1) obtain subStackNodeValue propertiesItem properties ptg pk cty ctg cr where
    nav: "pairValue subStackNodePair = Some subStackNodeValue"
      "getNodeItemByStringKey subStackNodeValue ''Properties'' = Some propertiesItem"
      "getNodeValueIfPair propertiesItem = Some properties"
      "yamlGet properties ''TemplateURL'' = Inr (Str templateUrl)"
      "getNodeItemByStringKey properties ''Parameters''
         = Some (Pair ptg pk keyRange0 (Some (Collection cty ctg cr supplied)))"
    by (rule parametersBlock_parts)
  from assms(3) obtain propertiesPosition where
    position: "getRowColumnPosition fullText keyRange0 = Inr propertiesPosition"
    using getRowColumnPosition_returns by blast
  from supplied_loop [OF assms(4), of declared]
  obtain unknown remaining where
    loop: "\<forall>ds. forEach (checkSuppliedParameter fullText) supplied (ds, declared)
             = ((ds @ unknown, remaining), None)"
    and p2: "\<forall>d\<in>set unknown. \<exists>tg k kr v position. Pair tg k kr v \<in> set supplied
                \<and> getRowColumnPosition fullText kr = Inr position
                \<and> d = unknownParameterDiagnostic position k"
    and p3: "\<forall>tg k kr v. Pair tg k kr v \<in> set supplied \<and> k \<notin> parameterName ` set declared
                \<longrightarrow> (\<exists>position. getRowColumnPosition fullText kr = Inr position
                       \<and> unknownParameterDiagnostic position k \<in> set unknown)"
    and p4: "set remaining \<subseteq> set declared"
    and p5: "\<forall>p\<in>set declared. Some (parameterName p) \<notin> itemStringKey ` set supplied
                \<longrightarrow> p \<in> set remaining"
    and p6: "supplied = [] \<longrightarrow> unknown = [] \<and> remaining = declared"
    by blast
  have pv: "getNodeValueIfPair (Pair ptg pk keyRange0 (Some (Collection cty ctg cr supplied)))
      = Some (Collection cty (if truthy ctg then ctg else ptg) cr supplied)"
    by simp
  have "matchSubStackParameters fullText subStackRefs properties templateUrl ds
      = (ds @ unknown @ map (missingParameterDiagnostic propertiesPosition) remaining, None)"
    for ds
    unfolding matchSubStackParameters_def
    by (simp add: nav(5) assms(2) pv loop position missing_fold del: getNodeValueIfPair.simps)
  then have run: "\<forall>ds. checkSubStackNodePair fullText subStackRefs ds subStackNodePair
      = (ds @ unknown @ map (missingParameterDiagnostic propertiesPosition) remaining, None)"
    by (simp add: checkSubStackNodePair_def nav(1-4))
  from run position p2 p3 p4 p5 p6 show ?thesis by blast
qed


text \<open>
  C7 (amended). For a list of child-stack resources, each with a literal TemplateURL whose
  template was collected and with a Parameters block that holds a map of supplied
  parameters, all keys behind the first line of the text: the matcher raises nothing and
  adds the diagnostics of the child stacks one after the other. For each child stack it
  first adds the Error diagnostics of the supplied parameters that match no remaining
  declared parameter, each at its parameter key, among them one for every supplied name
  the child does not declare; afterwards it adds, at the key of the Parameters block, one
  diagnostic for every declared parameter left, among them every declared parameter whose
  name was not supplied: Warning when the parameter has a default, Error when it has none.
  With an empty Parameters block the diagnostics are exactly those of the declared
  parameters.
\<close>

theorem sub_stack_parameter_matching:
  assumes "list_all2
             (\<lambda>subStackNodePair (templateUrl, keyRange0, supplied, declared).
                parametersBlock subStackNodePair = Some (templateUrl, keyRange0, supplied)
                \<and> parametersByUrl subStackRefs templateUrl = Some declared
                \<and> behindFirstLine fullText keyRange0
                \<and> (\<forall>item\<in>set supplied.
                      \<exists>tg k kr v. item = Pair tg k kr v \<and> behindFirstLine fullText kr))
             subStackNodePairs blocks"
  shows "\<exists>reports.
           buildInvalidSubStackParameterDiagnostics fullText subStackRefs subStackNodePairs ds
             = (ds @ concat reports, None)
         \<and> list_all2
             (\<lambda>(templateUrl, keyRange0, supplied, declared) report.
                \<exists>unknown remaining propertiesPosition.
                  report = unknown @ map (missingParameterDiagnostic propertiesPosition) remaining
                \<and> getRowColumnPosition fullText keyRange0 = Inr propertiesPosition
                \<and> (\<forall>d\<in>set unknown. \<exists>tg k kr v position. Pair tg k kr v \<in> set supplied
                       \<and> getRowColumnPosition fullText kr = Inr position
                       \<and> d = unknownParameterDiagnostic position k \<and> severity d = Error)
                \<and> (\<forall>tg k kr v. Pair tg k kr v \<in> set supplied
                       \<and> k \<notin> parameterName ` set declared
                       \<longrightarrow> (\<exists>position. getRowColumnPosition fullText kr = Inr position
                              \<and> unknownParameterDiagnostic position k \<in> set unknown))
                \<and> set remaining \<subseteq> set declared
                \<and> (\<forall>p\<in>set declared. Some (parameterName p) \<notin> itemStringKey ` set supplied
                       \<longrightarrow> p \<in> set remaining)
                \<and> (\<forall>p\<in>set remaining.
                      severity (missingParameterDiagnostic propertiesPosition p)
                        = (if hasDefault p then Warning else Error)
                      \<and> message (missingParameterDiagnostic propertiesPosition p)
                        = (if hasDefault p
                           then ''Properties missing value for parameter with default value, ''
                           else ''Properties missing value for required parameter, '')
                          @ quoted (parameterName p))
                \<and> (supplied = [] \<longrightarrow> unknown = [] \<and> remaining = declared))
             blocks reports"
  using assms
proof (induction subStackNodePairs blocks arbitrary: ds rule: list_all2_induct)
  case Nil
  show ?case
    by (rule exI [of _ "[]"]) (simp add: buildInvalidSubStackParameterDiagnostics_def)
next
  case (Cons subStackNodePair subStackNodePairs block blocks)
  obtain templateUrl keyRange0 supplied declared where
    block: "block = (templateUrl, keyRange0, supplied, declared)"
    by (cases block) auto
  from Cons.hyps(1) block have h:
    "parametersBlock subStackNodePair = Some (templateUrl, keyRange0, supplied)"
    "parametersByUrl subStackRefs templateUrl = Some declared"
    "behindFirstLine fullText keyRange0"
    "\<forall>item\<in>set supplied. \<exists>tg k kr v. item = Pair tg k kr v \<and> behindFirstLine fullText kr"
    by auto
  from checkSubStackNodePair_report [OF h]
  obtain unknown remaining propertiesPosition where
    run: "\<forall>ds. checkSubStackNodePair fullText subStackRefs ds subStackNodePair
            = (ds @ unknown @ map (missingParameterDiagnostic propertiesPosition) remaining, None)"
    and position: "getRowColumnPosition fullText keyRange0 = Inr propertiesPosition"
    and p2: "\<forall>d\<in>set unknown. \<exists>tg k kr v position. Pair tg k kr v \<in> set supplied
                \<and> getRowColumnPosition fullText kr = Inr position
                \<and> d = unknownParameterDiagnostic position k"
    and p3: "\<forall>tg k kr v. Pair tg k kr v \<in> set supplied \<and> k \<notin> parameterName ` set declared
                \<longrightarrow> (\<exists>position. getRowColumnPosition fullText kr = Inr position
                       \<and> unknownParameterDiagnostic position k \<in> set unknown)"
    and p4: "set remaining \<subseteq> set declared"
    and p5: "\<forall>p\<in>set declared. Some (parameterName p) \<notin> itemStringKey ` set supplied
                \<longrightarrow> p \<in> set remaining"
    and p6: "supplied = [] \<longrightarrow> unknown = [] \<and> remaining = declared"
    by blast
  let ?report = "unknown @ map (missingParameterDiagnostic propertiesPosition) remaining"
  have p2': "\<forall>d\<in>set unknown. \<exists>tg k kr v position. Pair tg k kr v \<in> set supplied
                \<and> getRowColumnPosition fullText kr = Inr position
                \<and> d = unknownParameterDiagnostic position k \<and> severity d = Error"
    using p2 by (fastforce simp: unknownParameterDiagnostic_def createDiagnostic_def)
  have p7: "\<forall>p\<in>set remaining.
               severity (missingParameterDiagnostic propertiesPosition p)
                 = (if hasDefault p then Warning else Error)
               \<and> message (missingParameterDiagnostic propertiesPosition p)
                 = (if hasDefault p
                    then ''Properties missing value for parameter with default value, ''
                    else ''Properties missing value for required parameter, '')
                   @ quoted (parameterName p)"
    by (simp add: missingParameterDiagnostic_def createDiagnostic_def)
  from Cons.IH [of "ds @ ?report"] obtain reports where
    rest: "buildInvalidSubStackParameterDiagnostics fullText subStackRefs subStackNodePairs
             (ds @ ?report) = ((ds @ ?report) @ concat reports, None)"
    and all: "list_all2
             (\<lambda>(templateUrl, keyRange0, supplied, declared) report.
                \<exists>unknown remaining propertiesPosition.
                  report = unknown @ map (missingParameterDiagnostic propertiesPosition) remaining
                \<and> getRowColumnPosition fullText keyRange0 = Inr propertiesPosition
                \<and> (\<forall>d\<in>set unknown. \<exists>tg k kr v position. Pair tg k kr v \<in> set supplied
                       \<and> getRowColumnPosition fullText kr = Inr position
                       \<and> d = unknownParameterDiagnostic position k \<and> severity d = Error)
                \<and> (\<forall>tg k kr v. Pair tg k kr v \<in> set supplied
                       \<and> k \<notin> parameterName ` set declared
                       \<longrightarrow> (\<exists>position. getRowColumnPosition fullText kr = Inr position
                              \<and> unknownParameterDiagnostic position k \<in> set unknown))
                \<and> set remaining \<subseteq> set declared
                \<and> (\<forall>p\<in>set declared. Some (parameterName p) \<notin> itemStringKey ` set supplied
                       \<longrightarrow> p \<in> set remaining)
                \<and> (\<forall>p\<in>set remaining.
                      severity (missingParameterDiagnostic propertiesPosition p)
                        = (if hasDefault p then Warning else Error)
                      \<and> message (missingParameterDiagnostic propertiesPosition p)
                        = (if hasDefault p
                           then ''Properties missing value for parameter with default value, ''
                           else ''Properties missing value for required parameter, '')
                          @ quoted (parameterName p))
                \<and> (supplied = [] \<longrightarrow> unknown = [] \<and> remaining = declared))
             blocks reports"
    by blast
  have whole: "buildInvalidSubStackParameterDiagnostics fullText subStackRefs
                 (subStackNodePair # subStackNodePairs) ds
      = (ds @ concat (?report # reports), None)"
    using rest run by (simp add: buildInvalidSubStackParameterDiagnostics_def)
  have head: "\<exists>unknown' remaining' propertiesPosition'.
                  ?report = unknown' @ map (missingParameterDiagnostic propertiesPosition') remaining'
                \<and> getRowColumnPosition fullText keyRange0 = Inr propertiesPosition'
                \<and> (\<forall>d\<in>set unknown'. \<exists>tg k kr v position. Pair tg k kr v \<in> set supplied
                       \<and> getRowColumnPosition fullText kr = Inr position
                       \<and> d = unknownParameterDiagnostic position k \<and> severity d = Error)
                \<and> (\<forall>tg k kr v. Pair tg k kr v \<in> set supplied
                       \<and> k \<notin> parameterName ` set declared
                       \<longrightarrow> (\<exists>position. getRowColumnPosition fullText kr = Inr position
                              \<and> unknownParameterDiagnostic position k \<in> set unknown'))
                \<and> set remaining' \<subseteq> set declared
                \<and> (\<forall>p\<in>set declared. Some (parameterName p) \<notin> itemStringKey ` set supplied
                       \<longrightarrow> p \<in> set remaining')
                \<and> (\<forall>p\<in>set remaining'.
                      severity (missingParameterDiagnostic propertiesPosition' p)
                        = (if hasDefault p then Warning else Error)
                      \<and> message (missingParameterDiagnostic propertiesPosition' p)
                        = (if hasDefault p
                           then ''Properties missing value for parameter with default value, ''
                           else ''Properties missing value for required parameter, '')
                          @ quoted (parameterName p))
                \<and> (supplied = [] \<longrightarrow> unknown' = [] \<and> remaining' = declared)"
    using position p2' p3 p4 p5 p7 p6 by blast
  show ?case
    apply (rule exI [of _ "?report # reports"])
    using whole all head unfolding block by simp
qed

text \<open>
  Two child stacks with empty Parameters blocks; the template of the first declares \<open>Baz\<close>
  with a default, the template of the second declares \<open>Qux\<close> without: exactly one
  Warning and one Error, each at the key \<open>Parameters\<close> of its child stack.
\<close>

theorem sub_stack_parameter_matching_witness:
  "buildInvalidSubStackParameterDiagnostics
     (''Resources:'' @ [CHR 0x0A]
      @ ''  First:'' @ [CHR 0x0A]
      @ ''    Type: AWS::CloudFormation::Stack'' @ [CHR 0x0A]
      @ ''    Properties:'' @ [CHR 0x0A]
      @ ''      TemplateURL: first.yaml'' @ [CHR 0x0A]
      @ ''      Parameters: {}'' @ [CHR 0x0A]
      @ ''  Second:'' @ [CHR 0x0A]
      @ ''    Type: AWS::CloudFormation::Stack'' @ [CHR 0x0A]
      @ ''    Properties:'' @ [CHR 0x0A]
      @ ''      TemplateURL: second.yaml'' @ [CHR 0x0A]
      @ ''      Parameters: {}'' @ [CHR 0x0A])
     \<lparr>outputs = [],
      parametersByUrl =
        [''first.yaml'' \<mapsto> [\<lparr>parameterName = ''Baz'', hasDefault = True\<rparr>],
         ''second.yaml'' \<mapsto> [\<lparr>parameterName = ''Qux'', hasDefault = False\<rparr>]]\<rparr>
     [Pair None ''First'' 13
         (Some (Collection MAP mapTag 24
            [Pair None ''Type'' 24
                (Some (Scalar PLAIN None None 30 ''AWS::CloudFormation::Stack'')),
             Pair None ''Properties'' 61
                (Some (Collection MAP mapTag 79
                   [Pair None ''TemplateURL'' 79 (Some (Scalar PLAIN None None 92 ''first.yaml'')),
                    Pair None ''Parameters'' 109 (Some (Collection FLOW_MAP mapTag 121 []))]))])),
      Pair None ''Second'' 126
         (Some (Collection MAP mapTag 138
            [Pair None ''Type'' 138
                (Some (Scalar PLAIN None None 144 ''AWS::CloudFormation::Stack'')),
             Pair None ''Properties'' 175
                (Some (Collection MAP mapTag 193
                   [Pair None ''TemplateURL'' 193
                       (Some (Scalar PLAIN None None 206 ''second.yaml'')),
                    Pair None ''Parameters'' 224 (Some (Collection FLOW_MAP mapTag 236 []))]))]))]
     []
   = ([\<lparr>startLine = 5, startColumn = 6, endLine = 5, endColumn = 16, severity = Warning,
        message = ''Properties missing value for parameter with default value, ''
                    @ quoted ''Baz''\<rparr>,
       \<lparr>startLine = 10, startColumn = 6, endLine = 10, endColumn = 16, severity = Error,
        message = ''Properties missing value for required parameter, '' @ quoted ''Qux''\<rparr>],
      None)"
proof -
  let ?text = "''Resources:'' @ [CHR 0x0A]
      @ ''  First:'' @ [CHR 0x0A]
      @ ''    Type: AWS::CloudFormation::Stack'' @ [CHR 0x0A]
      @ ''    Properties:'' @ [CHR 0x0A]
      @ ''      TemplateURL: first.yaml'' @ [CHR 0x0A]
      @ ''      Parameters: {}'' @ [CHR 0x0A]
      @ ''  Second:'' @ [CHR 0x0A]
      @ ''    Type: AWS::CloudFormation::Stack'' @ [CHR 0x0A]
      @ ''    Properties:'' @ [CHR 0x0A]
      @ ''      TemplateURL: second.yaml'' @ [CHR 0x0A]
      @ ''      Parameters: {}'' @ [CHR 0x0A]"
  let ?refs = "\<lparr>outputs = [],
      parametersByUrl =
        [''first.yaml'' \<mapsto> [\<lparr>parameterName = ''Baz'', hasDefault = True\<rparr>],
         ''second.yaml'' \<mapsto> [\<lparr>parameterName = ''Qux'', hasDefault = False\<rparr>]]\<rparr>"
  let ?first = "Pair None ''First'' 13
         (Some (Collection MAP mapTag 24
            [Pair None ''Type'' 24
                (Some (Scalar PLAIN None None 30 ''AWS::CloudFormation::Stack'')),
             Pair None ''Properties'' 61
                (Some (Collection MAP mapTag 79
                   [Pair None ''TemplateURL'' 79 (Some (Scalar PLAIN None None 92 ''first.yaml'')),
                    Pair None ''Parameters'' 109 (Some (Collection FLOW_MAP mapTag 121 []))]))]))"
  let ?second = "Pair None ''Second'' 126
         (Some (Collection MAP mapTag 138
            [Pair None ''Type'' 138
                (Some (Scalar PLAIN None None 144 ''AWS::CloudFormation::Stack'')),
             Pair None ''Properties'' 175
                (Some (Collection MAP mapTag 193
                   [Pair None ''TemplateURL'' 193
                       (Some (Scalar PLAIN None None 206 ''second.yaml'')),
                    Pair None ''Parameters'' 224 (Some (Collection FLOW_MAP mapTag 236 []))]))]))"
  let ?baz = "\<lparr>parameterName = ''Baz'', hasDefault = True\<rparr>"
  let ?qux = "\<lparr>parameterName = ''Qux'', hasDefault = False\<rparr>"
  have p1: "getRowColumnPosition ?text 109 = Inr \<lparr>line = 5, column = 6\<rparr>"
    by (simp add: getRowColumnPosition_def)
  have p2: "getRowColumnPosition ?text 224 = Inr \<lparr>line = 10, column = 6\<rparr>"
    by (simp add: getRowColumnPosition_def)
  have blocks: "list_all2
             (\<lambda>subStackNodePair (templateUrl, keyRange0, supplied, declared).
                parametersBlock subStackNodePair = Some (templateUrl, keyRange0, supplied)
                \<and> parametersByUrl ?refs templateUrl = Some declared
                \<and> behindFirstLine ?text keyRange0
                \<and> (\<forall>item\<in>set supplied.
                      \<exists>tg k kr v. item = Pair tg k kr v \<and> behindFirstLine ?text kr))
             [?first, ?second]
             [(''first.yaml'', 109, [], [?baz]), (''second.yaml'', 224, [], [?qux])]"
    by (simp add: parametersBlock_def behindFirstLine_def truthy_def schema_defs)
  show ?thesis
    using sub_stack_parameter_matching [OF blocks, of "[]"]
    by (auto simp: list_all2_Cons1 p1 [simplified] p2 [simplified]
          missingParameterDiagnostic_def createDiagnostic_def)
qed

text \<open>
  C7 as stated promises the Warning to every parent that supplies no parameters. A parent
  without a Parameters block supplies none, and for it the matcher records nothing: the
  Warning has no block to stand at (line 144 returns when there is no such pair). The
  child template below declares \<open>Baz\<close> with a default; neither the matcher nor the whole
  pass leaves a diagnostic.
\<close>

theorem sub_stack_without_parameters_block_counterexample:
  "fst (buildInvalidSubStackParameterDiagnostics
     (''Resources:'' @ [CHR 0x0A]
      @ ''  Child:'' @ [CHR 0x0A]
      @ ''    Type: AWS::CloudFormation::Stack'' @ [CHR 0x0A]
      @ ''    Properties:'' @ [CHR 0x0A]
      @ ''      TemplateURL: child.yaml'' @ [CHR 0x0A])
     \<lparr>outputs = [],
      parametersByUrl = [''child.yaml'' \<mapsto> [\<lparr>parameterName = ''Baz'', hasDefault = True\<rparr>]]\<rparr>
     [Pair None ''Child'' 13
         (Some (Collection MAP mapTag 24
            [Pair None ''Type'' 24
                (Some (Scalar PLAIN None None 30 ''AWS::CloudFormation::Stack'')),
             Pair None ''Properties'' 61
                (Some (Collection MAP mapTag 79
                   [Pair None ''TemplateURL'' 79 (Some (Scalar PLAIN None None 92 ''child.yaml''))]))]))]
     [])
   = []
   \<and> checkYaml
     (\<lambda>path. if path = ''/templates/child.yaml''
        then Inr
          \<lparr>contents = Some
             (Collection MAP mapTag 0
              [Pair None ''Parameters'' 0
                  (Some (Collection MAP mapTag 14
                     [Pair None ''Baz'' 14
                         (Some (Collection MAP mapTag 23
                            [Pair None ''Type'' 23 (Some (Scalar PLAIN None None 29 ''String'')),
                             Pair None ''Default'' 40 (Some (Scalar PLAIN None None 49 ''x''))]))]))]),
           errors = []\<rparr>
        else Inl ''{}'')
     ''/templates/parent.yaml''
     (''Resources:'' @ [CHR 0x0A]
      @ ''  Child:'' @ [CHR 0x0A]
      @ ''    Type: AWS::CloudFormation::Stack'' @ [CHR 0x0A]
      @ ''    Properties:'' @ [CHR 0x0A]
      @ ''      TemplateURL: child.yaml'' @ [CHR 0x0A])
     \<lparr>contents = Some
        (Collection MAP mapTag 0
         [Pair None ''Resources'' 0
             (Some (Collection MAP mapTag 13
                [Pair None ''Child'' 13
                    (Some (Collection MAP mapTag 24
                       [Pair None ''Type'' 24
                           (Some (Scalar PLAIN None None 30 ''AWS::CloudFormation::Stack'')),
                        Pair None ''Properties'' 61
                           (Some (Collection MAP mapTag 79
                              [Pair None ''TemplateURL'' 79
                                  (Some (Scalar PLAIN None None 92 ''child.yaml''))]))]))]))]),
      errors = []\<rparr>
   = []"
  by (simp add: eval_defs)

text \<open>
  A parent that supplies \<open>Foo\<close> to a child declaring only \<open>Baz\<close>, without default: two
  Errors, one at \<open>Foo\<close> and one at \<open>Parameters\<close>.
\<close>

lemma unknown_and_missing_example:
  "buildInvalidSubStackParameterDiagnostics
     (''Resources:'' @ [CHR 0x0A]
      @ ''  Child:'' @ [CHR 0x0A]
      @ ''    Type: AWS::CloudFormation::Stack'' @ [CHR 0x0A]
      @ ''    Properties:'' @ [CHR 0x0A]
      @ ''      TemplateURL: child.yaml'' @ [CHR 0x0A]
      @ ''      Parameters:'' @ [CHR 0x0A]
      @ ''        Foo: bar'' @ [CHR 0x0A])
     \<lparr>outputs = [],
      parametersByUrl = [''child.yaml'' \<mapsto> [\<lparr>parameterName = ''Baz'', hasDefault = False\<rparr>]]\<rparr>
     [Pair None ''Child'' 13
         (Some (Collection MAP mapTag 24
            [Pair None ''Type'' 24
                (Some (Scalar PLAIN None None 30 ''AWS::CloudFormation::Stack'')),
             Pair None ''Properties'' 61
                (Some (Collection MAP mapTag 79
                   [Pair None ''TemplateURL'' 79 (Some (Scalar PLAIN None None 92 ''child.yaml'')),
                    Pair None ''Parameters'' 109
                       (Some (Collection MAP mapTag 129
                          [Pair None ''Foo'' 129 (Some (Scalar PLAIN None None 134 ''bar''))]))]))]))]
     []
   = ([\<lparr>startLine = 6, startColumn = 8, endLine = 6, endColumn = 11, severity = Error,
        message = ''Referenced file does not have parameter, '' @ quoted ''Foo''\<rparr>,
       \<lparr>startLine = 5, startColumn = 6, endLine = 5, endColumn = 16, severity = Error,
        message = ''Properties missing value for required parameter, '' @ quoted ''Baz''\<rparr>],
      None)"
  by (simp add: eval_defs)

text \<open>
  The loop ends at the first child stack whose callback raises: behind a child stack
  without a Parameters block, the unknown parameter \<open>Foo\<close> of the next one is not
  reported.
\<close>

lemma matcher_ends_at_first_raise_example:
  "buildInvalidSubStackParameterDiagnostics
     (''Resources:'' @ [CHR 0x0A]
      @ ''  First:'' @ [CHR 0x0A]
      @ ''    Type: AWS::CloudFormation::Stack'' @ [CHR 0x0A]
      @ ''    Properties:'' @ [CHR 0x0A]
      @ ''      TemplateURL: first.yaml'' @ [CHR 0x0A]
      @ ''  Second:'' @ [CHR 0x0A]
      @ ''    Type: AWS::CloudFormation::Stack'' @ [CHR 0x0A]
      @ ''    Properties:'' @ [CHR 0x0A]
      @ ''      TemplateURL: second.yaml'' @ [CHR 0x0A]
      @ ''      Parameters:'' @ [CHR 0x0A]
      @ ''        Foo: bar'' @ [CHR 0x0A])
     \<lparr>outputs = [], parametersByUrl = [''first.yaml'' \<mapsto> [], ''second.yaml'' \<mapsto> []]\<rparr>
     [Pair None ''First'' 13
         (Some (Collection MAP mapTag 24
            [Pair None ''Type'' 24
                (Some (Scalar PLAIN None None 30 ''AWS::CloudFormation::Stack'')),
             Pair None ''Properties'' 61
                (Some (Collection MAP mapTag 79
                   [Pair None ''TemplateURL'' 79 (Some (Scalar PLAIN None None 92 ''first.yaml''))]))])),
      Pair None ''Second'' 105
         (Some (Collection MAP mapTag 117
            [Pair None ''Type'' 117
                (Some (Scalar PLAIN None None 123 ''AWS::CloudFormation::Stack'')),
             Pair None ''Properties'' 154
                (Some (Collection MAP mapTag 172
                   [Pair None ''TemplateURL'' 172
                       (Some (Scalar PLAIN None None 185 ''second.yaml'')),
                    Pair None ''Parameters'' 203
                       (Some (Collection MAP mapTag 223
                          [Pair None ''Foo'' 223 (Some (Scalar PLAIN None None 228 ''bar''))]))]))]))]
     []
   = ([], Some TypeError)"
  by (simp add: eval_defs)

section \<open>What the collector does with a child template\<close>

text \<open>
  A child template whose file cannot be read: the \<open>catch\<close> block records one Error
  diagnostic at the value of the TemplateURL pair, provided that value lies behind the
  first line of the text; the child adds no output and has the empty parameter list;
  nothing is raised, and the collector goes on with the remaining child stacks.
\<close>

lemma child_template_read_failure:
  assumes "pairValue nodePair = Some v"
    and "yamlGet v ''Properties'' = Inr (Nd properties)"
    and "yamlGet properties ''TemplateURL'' = Inr (Str templateUrl)"
    and "getNodeItemByStringKey properties ''TemplateURL''
           = Some (Pair tg k kr (Some (Scalar ty stg sk range0 templateUrl)))"
    and "fs (parentPath @ ''/'' @ templateUrl) = Inl detail"
    and "getRowColumnPosition fullText range0 = Inr position"
  shows "loadSubStack fs fullText parentPath (refs, ds) nodePair
           = ((refs\<lparr>parametersByUrl := (parametersByUrl refs)(templateUrl \<mapsto> [])\<rparr>,
               ds @ [createDiagnostic position (length templateUrl) Error
                       (''Unable to load or parse template file, ''
                          @ quoted (parentPath @ ''/'' @ templateUrl)
                          @ ''. Error encountered: '' @ detail)]),
              None)"
proof -
  have fsfail: "fs (parentPath @ CHR ''/'' # templateUrl) = Inl detail"
    using assms(5) by simp
  have "reportLoadFailure fullText (Nd properties) (parentPath @ ''/'' @ templateUrl) detail ds
      = (ds @ [loadFailureDiagnostic position templateUrl (parentPath @ ''/'' @ templateUrl)
                 detail], None)"
    by (simp add: reportLoadFailure_def assms(4,6) addDiagnostic_def)
  then show ?thesis
    by (simp add: loadSubStack_def assms(1,2,3) fsfail Let_def loadFailureDiagnostic_def)
qed

text \<open>
  C8. The claim asks for the Error diagnostic also when the file of the child template
  cannot be parsed, and the \<open>try\<close> statement (lines 176 to 193) encloses the call of the
  parser with a message that says "Unable to load or parse". But the parser does not
  raise on a text it cannot parse: it returns a document that holds the errors and what
  it could build, and the collector never reads the errors. The child template below
  ends in a double-quoted scalar that is not closed. The collector records no diagnostic
  for it and takes the output \<open>Out\<close> of the broken template as referenceable.
\<close>

theorem unparsable_child_template_not_reported:
  "getSubStackReferenceables
     (\<lambda>path. if path = ''/templates/child.yaml''
        then Inr
          \<lparr>contents = Some
             (Collection MAP mapTag 0
              [Pair None ''Outputs'' 0
                  (Some (Collection MAP mapTag 11
                     [Pair None ''Out'' 11
                         (Some (Collection MAP mapTag 20
                            [Pair None ''Value'' 20 (Some (Scalar PLAIN None None 27 ''x''))]))])),
               Pair None ''Broken'' 29 (Some (Scalar QUOTE_DOUBLE strTag None 37 ''unclosed''))]),
           errors = [''Missing closing \"quote'']\<rparr>
        else Inl ''{}'')
     (''Resources:'' @ [CHR 0x0A]
      @ ''  Child:'' @ [CHR 0x0A]
      @ ''    Type: AWS::CloudFormation::Stack'' @ [CHR 0x0A]
      @ ''    Properties:'' @ [CHR 0x0A]
      @ ''      TemplateURL: child.yaml'' @ [CHR 0x0A]
      @ ''      Parameters: {}'' @ [CHR 0x0A])
     [Pair None ''Child'' 13
         (Some (Collection MAP mapTag 24
            [Pair None ''Type'' 24
                (Some (Scalar PLAIN None None 30 ''AWS::CloudFormation::Stack'')),
             Pair None ''Properties'' 61
                (Some (Collection MAP mapTag 79
                   [Pair None ''TemplateURL'' 79 (Some (Scalar PLAIN None None 92 ''child.yaml'')),
                    Pair None ''Parameters'' 109 (Some (Collection FLOW_MAP mapTag 121 []))]))]))]
     ''/templates'' []
   = ((\<lparr>outputs = [''Child.Outputs.Out''], parametersByUrl = [''child.yaml'' \<mapsto> []]\<rparr>, []),
      None)"
  by (simp add: eval_defs)

text \<open>
  The same child stack when the file does not exist: one Error at the value of the
  TemplateURL pair, and no output.
\<close>

lemma missing_child_template_example:
  "getSubStackReferenceables (\<lambda>path. Inl ''{\"code\":\"ENOENT\"}'')
     (''Resources:'' @ [CHR 0x0A]
      @ ''  Child:'' @ [CHR 0x0A]
      @ ''    Type: AWS::CloudFormation::Stack'' @ [CHR 0x0A]
      @ ''    Properties:'' @ [CHR 0x0A]
      @ ''      TemplateURL: child.yaml'' @ [CHR 0x0A]
      @ ''      Parameters: {}'' @ [CHR 0x0A])
     [Pair None ''Child'' 13
         (Some (Collection MAP mapTag 24
            [Pair None ''Type'' 24
                (Some (Scalar PLAIN None None 30 ''AWS::CloudFormation::Stack'')),
             Pair None ''Properties'' 61
                (Some (Collection MAP mapTag 79
                   [Pair None ''TemplateURL'' 79 (Some (Scalar PLAIN None None 92 ''child.yaml'')),
                    Pair None ''Parameters'' 109 (Some (Collection FLOW_MAP mapTag 121 []))]))]))]
     ''/templates'' []
   = ((\<lparr>outputs = [], parametersByUrl = [''child.yaml'' \<mapsto> []]\<rparr>,
       [\<lparr>startLine = 4, startColumn = 19, endLine = 4, endColumn = 29, severity = Error,
         message = ''Unable to load or parse template file, '' @ quoted ''/templates/child.yaml''
                     @ ''. Error encountered: {\"code\":\"ENOENT\"}''\<rparr>]),
      None)"
  by (simp add: eval_defs)

text \<open>
  A child template whose file is empty has no contents: reading them (line 194, behind
  the \<open>try\<close> statement) raises, the collection ends, and so does the pass: the reference
  to the undeclared \<open>Missing\<close> in the outputs of the parent is not reported.
\<close>

lemma empty_child_template_ends_pass_example:
  "checkYaml (\<lambda>path. Inr \<lparr>contents = None, errors = []\<rparr>) ''/templates/parent.yaml''
     (''Resources:'' @ [CHR 0x0A]
      @ ''  Child:'' @ [CHR 0x0A]
      @ ''    Type: AWS::CloudFormation::Stack'' @ [CHR 0x0A]
      @ ''    Properties:'' @ [CHR 0x0A]
      @ ''      TemplateURL: child.yaml'' @ [CHR 0x0A]
      @ ''      Parameters: {}'' @ [CHR 0x0A]
      @ ''Outputs:'' @ [CHR 0x0A]
      @ ''  Name:'' @ [CHR 0x0A]
      @ ''    Value: !Ref Missing'' @ [CHR 0x0A])
     \<lparr>contents = Some
        (Collection MAP mapTag 0
         [Pair None ''Resources'' 0
             (Some (Collection MAP mapTag 13
                [Pair None ''Child'' 13
                    (Some (Collection MAP mapTag 24
                       [Pair None ''Type'' 24
                           (Some (Scalar PLAIN None None 30 ''AWS::CloudFormation::Stack'')),
                        Pair None ''Properties'' 61
                           (Some (Collection MAP mapTag 79
                              [Pair None ''TemplateURL'' 79
                                  (Some (Scalar PLAIN None None 92 ''child.yaml'')),
                               Pair None ''Parameters'' 109
                                  (Some (Collection FLOW_MAP mapTag 121 []))]))]))])),
          Pair None ''Outputs'' 124
             (Some (Collection MAP mapTag 135
                [Pair None ''Name'' 135
                    (Some (Collection MAP mapTag 145
                       [Pair None ''Value'' 145
                           (Some (Scalar PLAIN (Some ''!Ref'') None 152 ''Missing''))]))]))]),
      errors = []\<rparr>
   = []"
  by (simp add: eval_defs)

text \<open>
  With a file that cannot be read in its place the pass goes on, and the reference is
  reported.
\<close>

lemma load_failure_pass_goes_on_example:
  "checkYaml (\<lambda>path. Inl ''{}'') ''/templates/parent.yaml''
     (''Resources:'' @ [CHR 0x0A]
      @ ''  Child:'' @ [CHR 0x0A]
      @ ''    Type: AWS::CloudFormation::Stack'' @ [CHR 0x0A]
      @ ''    Properties:'' @ [CHR 0x0A]
      @ ''      TemplateURL: child.yaml'' @ [CHR 0x0A]
      @ ''      Parameters: {}'' @ [CHR 0x0A]
      @ ''Outputs:'' @ [CHR 0x0A]
      @ ''  Name:'' @ [CHR 0x0A]
      @ ''    Value: !Ref Missing'' @ [CHR 0x0A])
     \<lparr>contents = Some
        (Collection MAP mapTag 0
         [Pair None ''Resources'' 0
             (Some (Collection MAP mapTag 13
                [Pair None ''Child'' 13
                    (Some (Collection MAP mapTag 24
                       [Pair None ''Type'' 24
                           (Some (Scalar PLAIN None None 30 ''AWS::CloudFormation::Stack'')),
                        Pair None ''Properties'' 61
                           (Some (Collection MAP mapTag 79
                              [Pair None ''TemplateURL'' 79
                                  (Some (Scalar PLAIN None None 92 ''child.yaml'')),
                               Pair None ''Parameters'' 109
                                  (Some (Collection FLOW_MAP mapTag 121 []))]))]))])),
          Pair None ''Outputs'' 124
             (Some (Collection MAP mapTag 135
                [Pair None ''Name'' 135
                    (Some (Collection MAP mapTag 145
                       [Pair None ''Value'' 145
                           (Some (Scalar PLAIN (Some ''!Ref'') None 152 ''Missing''))]))]))]),
      errors = []\<rparr>
   = [\<lparr>startLine = 4, startColumn = 19, endLine = 4, endColumn = 29, severity = Error,
       message = ''Unable to load or parse template file, '' @ quoted ''/templates/child.yaml''
                   @ ''. Error encountered: {}''\<rparr>,
      \<lparr>startLine = 8, startColumn = 16, endLine = 8, endColumn = 23, severity = Error,
       message = ''Unable to find referenced variable, '' @ quoted ''Missing''\<rparr>]"
  by (simp add: eval_defs)

section \<open>A pass over a document without references\<close>

text \<open>
  On a tree without intrinsic usage the extractor finds nothing: the tags that the
  traversal hands down are tags of the tree, none of them one the extractor reacts to. On
  a tree without a child-stack resource the search for child stacks finds nothing.
\<close>

lemma noIntrinsicUsage_setTagIfUnset:
  "noIntrinsicUsage n \<Longrightarrow> plainTag t \<Longrightarrow> noIntrinsicUsage (setTagIfUnset t n)"
  by (cases n) auto

lemma noIntrinsicUsage_inPairContext:
  "noIntrinsicUsage n \<Longrightarrow> plainTag t \<Longrightarrow> \<not> isDirectContext k
   \<Longrightarrow> noIntrinsicUsage (inPairContext t k n)"
  by (cases n) auto

lemma noIntrinsicUsage_value:
  "noIntrinsicUsage node \<Longrightarrow> getNodeValueIfPair node = Some nodeValue
   \<Longrightarrow> noIntrinsicUsage nodeValue"
  by (cases node) (auto simp: noIntrinsicUsage_inPairContext)

lemma inspectScalar_quiet:
  "plainTag tg \<Longrightarrow> (case sk of None \<Rightarrow> True | Some k \<Rightarrow> \<not> isDirectContext k)
   \<Longrightarrow> inspectScalar ty tg sk r v = []"
  by (auto simp: inspectScalar_def orElse_def truthy_def plainTag_def isIntrinsicTag_def
        isDirectContext_def split: option.splits)

lemma flattenResults_quiet:
  "\<forall>res\<in>set rs. quietResult res \<Longrightarrow> quietResult (flattenResults rs)"
  by (induction rs rule: flattenResults.induct) (auto simp: quietResult_def split: sum.splits)

lemma getSub_quiet:
  "noIntrinsicUsage node \<Longrightarrow> quietResult (getSubNodesWhichReference node)"
proof (induction node rule: getSubNodesWhichReference.induct)
  case (1 node)
  show ?case
  proof (cases "getNodeValueIfPair node")
    case None
    then show ?thesis by (simp add: getSubNodesWhichReference.simps quietResult_def)
  next
    case (Some nodeValue)
    with "1.prems" have nv: "noIntrinsicUsage nodeValue" by (rule noIntrinsicUsage_value)
    show ?thesis
    proof (cases nodeValue)
      case (Scalar ty tg sk r v)
      with nv Some show ?thesis
        by (simp add: getSubNodesWhichReference.simps quietResult_def inspectScalar_quiet)
    next
      case (Pair tg k kr v)
      with Some show ?thesis by (simp add: getSubNodesWhichReference.simps quietResult_def)
    next
      case (Collection ty tg r its)
      with nv have tg: "plainTag tg" and items: "\<forall>item\<in>set its. noIntrinsicUsage item" by auto
      show ?thesis
      proof (cases "ty = FLOW_SEQ")
        case True
        show ?thesis
        proof (cases its)
          case Nil
          with Some Collection True show ?thesis
            by (simp add: getSubNodesWhichReference.simps quietResult_def)
        next
          case (Cons firstSubNode rest)
          have a: "quietResult (getSubNodesWhichReference (setTagIfUnset tg firstSubNode))"
            using "1.IH"(1) [OF Some Collection True Cons] items Cons tg
            by (simp add: noIntrinsicUsage_setTagIfUnset)
          have b: "\<forall>x\<in>set rest. quietResult (getSubNodesWhichReference x)"
            using "1.IH"(2) [OF Some Collection True Cons] items Cons by simp
          have "quietResult (flattenResults
                  (getSubNodesWhichReference (setTagIfUnset tg firstSubNode)
                   # map getSubNodesWhichReference rest))"
            by (rule flattenResults_quiet) (use a b in auto)
          with Some Collection True Cons show ?thesis
            by (simp add: getSubNodesWhichReference.simps)
        qed
      next
        case notseq: False
        show ?thesis
        proof (cases "ty = MAP")
          case True
          have "\<forall>x\<in>set its. quietResult (getSubNodesWhichReference (setTagIfUnset tg x))"
            using "1.IH"(3) [OF Some Collection notseq True] items tg
            by (simp add: noIntrinsicUsage_setTagIfUnset)
          then have "quietResult (flattenResults
                  (map (\<lambda>item. getSubNodesWhichReference (setTagIfUnset tg item)) its))"
            by (intro flattenResults_quiet) auto
          with Some Collection True show ?thesis
            by (simp add: getSubNodesWhichReference.simps)
        next
          case False
          with Some Collection notseq show ?thesis
            by (simp add: getSubNodesWhichReference.simps quietResult_def)
        qed
      qed
    qed
  qed
qed


lemma findPair_mem: "findPair its key = Some p \<Longrightarrow> p \<in> set its"
  by (induction its key rule: findPair.induct) (auto split: if_splits)

lemma unwrapped_node:
  "unwrapped v = Nd n \<Longrightarrow> v = Some n"
  by (cases v rule: unwrapped.cases) (auto simp: resolveScalar_def split: if_splits)

lemma documentGet_noIntrinsicUsage:
  assumes "case contents document of None \<Rightarrow> True | Some c \<Rightarrow> noIntrinsicUsage c"
    and "documentGet document key = Nd n"
  shows "noIntrinsicUsage n"
proof (cases "contents document")
  case None
  with assms(2) show ?thesis by (simp add: documentGet_def)
next
  case (Some c)
  with assms(1) have c: "noIntrinsicUsage c" by simp
  show ?thesis
  proof (cases c)
    case (Collection ty tg r its)
    show ?thesis
    proof (cases "findPair its key")
      case None
      with assms(2) Some Collection show ?thesis
        by (simp add: documentGet_def split: if_splits)
    next
      case (Some p)
      then have "p \<in> set its" by (rule findPair_mem)
      with c Collection have p: "noIntrinsicUsage p" by simp
      from assms(2) \<open>contents document = Some c\<close> Collection Some
      have "unwrapped (pairValue p) = Nd n"
        by (simp add: documentGet_def split: if_splits)
      then have "pairValue p = Some n" by (rule unwrapped_node)
      with p show ?thesis by (cases p) auto
    qed
  qed (use assms(2) Some in \<open>simp_all add: documentGet_def\<close>)
qed

lemma subNodesWhichReference_quiet:
  assumes "case contents document of None \<Rightarrow> True | Some c \<Rightarrow> noIntrinsicUsage c"
  shows "quietResult (subNodesWhichReference (documentGet document key))"
proof (cases "documentGet document key")
  case (Nd n)
  with assms have "noIntrinsicUsage n" by (auto intro: documentGet_noIntrinsicUsage)
  with Nd show ?thesis by (simp add: getSub_quiet)
qed (simp_all add: quietResult_def)

lemma getNodesWhichReference_quiet:
  assumes "case contents document of None \<Rightarrow> True | Some c \<Rightarrow> noIntrinsicUsage c"
  shows "quietResult (getNodesWhichReference document)"
  unfolding getNodesWhichReference_def
  by (rule flattenResults_quiet) (simp add: subNodesWhichReference_quiet [OF assms])

lemma noChildStack_value:
  "noChildStack node \<Longrightarrow> getNodeValueIfPair node = Some nodeValue \<Longrightarrow> noChildStack nodeValue"
proof (cases node)
  case (Pair tg k kr v)
  assume "noChildStack node" "getNodeValueIfPair node = Some nodeValue"
  with Pair obtain n where n: "v = Some n" "nodeValue = inPairContext tg k n" "noChildStack n"
    by (cases v) auto
  then show ?thesis by (cases n) auto
qed auto

lemma getSubStackNodePairs_quiet:
  "noChildStack node \<Longrightarrow> quietResult (getSubStackNodePairs node)"
proof (induction node rule: getSubStackNodePairs.induct)
  case (1 node)
  show ?case
  proof (cases "getNodeValueIfPair node")
    case None
    then show ?thesis by (simp add: getSubStackNodePairs.simps quietResult_def)
  next
    case (Some nodeValue)
    with "1.prems" have nv: "noChildStack nodeValue" by (rule noChildStack_value)
    show ?thesis
    proof (cases nodeValue)
      case (Scalar ty tg sk r v)
      with Some show ?thesis by (simp add: getSubStackNodePairs.simps quietResult_def)
    next
      case (Pair tg k kr v)
      with Some show ?thesis by (simp add: getSubStackNodePairs.simps quietResult_def)
    next
      case (Collection ty tg r its)
      with nv have ty: "yamlGet nodeValue ''Type'' \<noteq> Inr (Str ''AWS::CloudFormation::Stack'')"
        and items: "\<forall>item\<in>set its. noChildStack item" by auto
      show ?thesis
      proof (cases "ty = MAP")
        case True
        have "\<forall>x\<in>set its. quietResult (getSubStackNodePairs x)"
          using "1.IH" [OF Some Collection True ty] items by simp
        then have "quietResult (flattenResults (map getSubStackNodePairs its))"
          by (intro flattenResults_quiet) auto
        with Some Collection True ty show ?thesis
          by (simp add: getSubStackNodePairs.simps)
      next
        case False
        with Some Collection show ?thesis
          by (simp add: getSubStackNodePairs.simps quietResult_def)
      qed
    qed
  qed
qed

lemma findSubStackNodePairs_quiet:
  assumes "case contents document of None \<Rightarrow> True | Some c \<Rightarrow> noChildStack c"
  shows "quietResult (findSubStackNodePairs document)"
proof (cases "contents document")
  case None
  then show ?thesis by (simp add: findSubStackNodePairs_def quietResult_def)
next
  case (Some c)
  show ?thesis
  proof (cases c)
    case (Collection ty tg r its)
    show ?thesis
    proof (cases "find (\<lambda>item. itemStringKey item = Some ''Resources'') its")
      case None
      with Some Collection show ?thesis by (simp add: findSubStackNodePairs_def quietResult_def)
    next
      case (Some resourcesItem)
      then have "resourcesItem \<in> set its" by (auto simp: find_Some_iff)
      with assms \<open>contents document = Some c\<close> Collection have "noChildStack resourcesItem"
        by simp
      then have "quietResult (getSubStackNodePairs resourcesItem)"
        by (rule getSubStackNodePairs_quiet)
      with \<open>contents document = Some c\<close> Collection Some show ?thesis
        by (simp add: findSubStackNodePairs_def)
    qed
  qed (use Some in \<open>simp_all add: findSubStackNodePairs_def quietResult_def\<close>)
qed

lemma getReferenceables_no_child_stack:
  assumes "quietResult (findSubStackNodePairs document)"
  shows "fst (getReferenceables fs rootFilePath fullText document ds) = ds"
  using assms
  by (auto simp: getReferenceables_def getSubStackReferenceables_def quietResult_def
           split: option.splits sum.splits prod.splits)

text \<open>
  C9 (amended). For every document with no intrinsic usage (no node with a tag the
  extractor reacts to, whatever other tags it has, and no key \<open>DependsOn\<close>) and no
  child-stack resource, one full analysis pass leaves an empty diagnostic list, whatever
  the text and the file system hold.
\<close>

theorem no_intrinsic_usage_no_diagnostics:
  assumes "case contents document of
             None \<Rightarrow> True
           | Some c \<Rightarrow> noIntrinsicUsage c \<and> noChildStack c"
  shows "checkYaml fs rootFilePath fullText document = []"
proof -
  from assms have a: "case contents document of None \<Rightarrow> True | Some c \<Rightarrow> noIntrinsicUsage c"
    and b: "case contents document of None \<Rightarrow> True | Some c \<Rightarrow> noChildStack c"
    by (auto split: option.splits)
  have refs: "fst (getReferenceables fs rootFilePath fullText document []) = []"
    by (rule getReferenceables_no_child_stack) (rule findSubStackNodePairs_quiet [OF b])
  have nodes: "quietResult (getNodesWhichReference document)"
    by (rule getNodesWhichReference_quiet [OF a])
  have pairs: "quietResult (findSubStackNodePairs document)"
    by (rule findSubStackNodePairs_quiet [OF b])
  obtain ds res where g: "getReferenceables fs rootFilePath fullText document [] = (ds, res)"
    by (cases "getReferenceables fs rootFilePath fullText document []")
  with refs have ds: "ds = []" by simp
  show ?thesis
    using nodes pairs
    unfolding checkYaml_def g ds
    by (auto simp: quietResult_def buildInvalidReferenceDiagnostics_def
          buildInvalidSubStackParameterDiagnostics_def
        split: sum.splits)
qed

text \<open>
  A template with one topic, as the parser hands it over: the maps and the quoted scalar
  carry the tags the parser gives by default.
\<close>

theorem no_intrinsic_usage_no_diagnostics_witness:
  "checkYaml (\<lambda>path. Inl ''{}'') ''/templates/topic.yaml''
     (''Resources:'' @ [CHR 0x0A]
      @ ''  Topic:'' @ [CHR 0x0A]
      @ ''    Type: AWS::SNS::Topic'' @ [CHR 0x0A]
      @ ''    Properties:'' @ [CHR 0x0A]
      @ ''      DisplayName: \"alerts\"'' @ [CHR 0x0A])
     \<lparr>contents = Some
        (Collection MAP mapTag 0
         [Pair None ''Resources'' 0
             (Some (Collection MAP mapTag 13
                [Pair None ''Topic'' 13
                    (Some (Collection MAP mapTag 24
                       [Pair None ''Type'' 24
                           (Some (Scalar PLAIN None None 30 ''AWS::SNS::Topic'')),
                        Pair None ''Properties'' 50
                           (Some (Collection MAP mapTag 68
                              [Pair None ''DisplayName'' 68
                                  (Some (Scalar QUOTE_DOUBLE strTag None 81 ''alerts''))]))]))]))]),
      errors = []\<rparr>
   = []"
  by (rule no_intrinsic_usage_no_diagnostics)
     (simp add: plainTag_def isIntrinsicTag_def isDirectContext_def schema_defs)

text \<open>
  C9 as stated covers every document without intrinsic-tag usage. Such a document can hold
  a child-stack resource, and the pass matches its parameters whether or not a tag is
  used: the parent below has an empty Parameters block, its child declares \<open>Baz\<close> with a
  default, and the pass leaves one Warning.
\<close>

theorem tag_free_child_stack_counterexample:
  "noIntrinsicUsage
     (Collection MAP mapTag 0
        [Pair None ''Resources'' 0
            (Some (Collection MAP mapTag 13
               [Pair None ''Child'' 13
                   (Some (Collection MAP mapTag 24
                      [Pair None ''Type'' 24
                          (Some (Scalar PLAIN None None 30 ''AWS::CloudFormation::Stack'')),
                       Pair None ''Properties'' 61
                          (Some (Collection MAP mapTag 79
                             [Pair None ''TemplateURL'' 79
                                 (Some (Scalar PLAIN None None 92 ''child.yaml'')),
                              Pair None ''Parameters'' 109
                                 (Some (Collection FLOW_MAP mapTag 121 []))]))]))]))])
   \<and> checkYaml
     (\<lambda>path. if path = ''/templates/child.yaml''
        then Inr
          \<lparr>contents = Some
             (Collection MAP mapTag 0
              [Pair None ''Parameters'' 0
                  (Some (Collection MAP mapTag 14
                     [Pair None ''Baz'' 14
                         (Some (Collection MAP mapTag 23
                            [Pair None ''Type'' 23 (Some (Scalar PLAIN None None 29 ''String'')),
                             Pair None ''Default'' 40 (Some (Scalar PLAIN None None 49 ''x''))]))]))]),
           errors = []\<rparr>
        else Inl ''{}'')
     ''/templates/parent.yaml''
     (''Resources:'' @ [CHR 0x0A]
      @ ''  Child:'' @ [CHR 0x0A]
      @ ''    Type: AWS::CloudFormation::Stack'' @ [CHR 0x0A]
      @ ''    Properties:'' @ [CHR 0x0A]
      @ ''      TemplateURL: child.yaml'' @ [CHR 0x0A]
      @ ''      Parameters: {}'' @ [CHR 0x0A])
     \<lparr>contents = Some
        (Collection MAP mapTag 0
         [Pair None ''Resources'' 0
             (Some (Collection MAP mapTag 13
                [Pair None ''Child'' 13
                    (Some (Collection MAP mapTag 24
                       [Pair None ''Type'' 24
                           (Some (Scalar PLAIN None None 30 ''AWS::CloudFormation::Stack'')),
                        Pair None ''Properties'' 61
                           (Some (Collection MAP mapTag 79
                              [Pair None ''TemplateURL'' 79
                                  (Some (Scalar PLAIN None None 92 ''child.yaml'')),
                               Pair None ''Parameters'' 109
                                  (Some (Collection FLOW_MAP mapTag 121 []))]))]))]))]),
      errors = []\<rparr>
   = [\<lparr>startLine = 5, startColumn = 6, endLine = 5, endColumn = 16, severity = Warning,
       message = ''Properties missing value for parameter with default value, ''
                   @ quoted ''Baz''\<rparr>]"
  by (simp add: eval_defs plainTag_def isIntrinsicTag_def isDirectContext_def)

section \<open>Pseudo-parameters inside substitution strings\<close>

text \<open>
  The search for placeholders finds a placeholder that stands behind a text in which every
  \<open>${\<close> is closed, whatever the inner text of the placeholder is, and goes on behind
  it.
\<close>

lemma subMatches_placeholder:
  assumes "CHR ''}'' \<notin> set key"
  shows "subMatches i (''${'' @ key @ ''}'' @ post)
           = (i, ''${'' @ key @ ''}'') # subMatches (i + length key + 3) post"
proof -
  let ?P = "\<lambda>x. x \<noteq> CHR ''}''"
  have "takeWhile ?P (key @ CHR ''}'' # post) = takeWhile ?P key"
    by (rule takeWhile_tail) simp
  also have "\<dots> = key" using assms by (auto simp: takeWhile_eq_all_conv)
  finally have inner: "takeWhile ?P (key @ CHR ''}'' # post) = key" .
  have "subMatches i (CHR ''$'' # (CHR ''{'' # key @ CHR ''}'' # post))
      = (i, ''${'' @ key @ ''}'') # subMatches (i + length key + 3) post"
    by (subst subMatches.simps) (simp add: inner Let_def)
  then show ?thesis by simp
qed

lemma closedBefore_suffix: "closedBefore (a @ b) \<Longrightarrow> closedBefore b"
  by (induction a) simp_all

lemma subMatches_append:
  assumes "closedBefore pre" and "take 1 rest \<noteq> ''{''"
  shows "subMatches i (pre @ rest) = subMatches i pre @ subMatches (i + length pre) rest"
  using assms(1)
proof (induction "length pre" arbitrary: pre i rule: less_induct)
  case less
  let ?P = "\<lambda>x. x \<noteq> CHR ''}''"
  show ?case
  proof (cases pre)
    case Nil
    then show ?thesis by simp
  next
    case (Cons c cs)
    show ?thesis
    proof (cases "c = CHR ''$'' \<and> take 1 cs = ''{''")
      case True
      then obtain b where cs: "cs = CHR ''{'' # b" by (cases cs) auto
      from True cs Cons have pre: "pre = ''${'' @ b" by simp
      with less.prems have closing: "CHR ''}'' \<in> set b" by simp
      define inner where "inner = takeWhile ?P b"
      define tail where "tail = drop (Suc (length inner)) b"
      have b: "b = inner @ CHR ''}'' # tail"
        unfolding inner_def tail_def by (rule dropWhile_closing [OF closing])
      have noclose: "CHR ''}'' \<notin> set inner"
        unfolding inner_def by (auto dest: set_takeWhileD)
      have shape: "pre = ''${'' @ inner @ ''}'' @ tail"
        using pre b by simp
      have shorter: "length tail < length pre" using shape by simp
      have "closedBefore ((''${'' @ inner @ ''}'') @ tail)" using less.prems shape by simp
      then have closed: "closedBefore tail" by (rule closedBefore_suffix)
      have l: "subMatches i pre
          = (i, ''${'' @ inner @ ''}'') # subMatches (i + length inner + 3) tail"
        unfolding shape by (rule subMatches_placeholder [OF noclose])
      have "pre @ rest = ''${'' @ inner @ ''}'' @ (tail @ rest)" using shape by simp
      then have r: "subMatches i (pre @ rest)
          = (i, ''${'' @ inner @ ''}'') # subMatches (i + length inner + 3) (tail @ rest)"
        by (simp only: subMatches_placeholder [OF noclose])
      have len: "i + length inner + 3 + length tail = i + length pre" using shape by simp
      show ?thesis
        unfolding l r less.hyps [OF shorter closed] len by simp
    next
      case False
      have shorter: "length cs < length pre" using Cons by simp
      have "closedBefore ([c] @ cs)" using less.prems Cons by simp
      then have closed: "closedBefore cs" by (rule closedBefore_suffix)
      have l: "subMatches i pre = subMatches (i + 1) cs"
        unfolding Cons using False by (subst subMatches.simps) auto
      have nomatch: "\<not> (c = CHR ''$'' \<and> take 1 (cs @ rest) = ''{'')"
        using False assms(2) by (cases cs) auto
      have r: "subMatches i (pre @ rest) = subMatches (i + 1) (cs @ rest)"
        unfolding Cons append_Cons using nomatch by (subst subMatches.simps) auto
      show ?thesis
        unfolding l r less.hyps [OF shorter closed] using Cons by simp
    qed
  qed
qed


text \<open>
  The matcher only adds to the diagnostics it is given, also when it raises.
\<close>

lemma supplied_loop_appends:
  "\<exists>extra. fst (fst (forEach (checkSuppliedParameter fullText) its (ds, declared))) = ds @ extra"
proof (induction its arbitrary: ds declared)
  case Nil
  show ?case by simp
next
  case (Cons item its)
  obtain ds' declared' raised where
    step: "checkSuppliedParameter fullText (ds, declared) item = ((ds', declared'), raised)"
    by (metis surj_pair)
  then have pre: "\<exists>extra. ds' = ds @ extra"
    by (auto simp: checkSuppliedParameter_def addDiagnostic_def
          split: option.splits Node.splits sum.splits)
  show ?case
  proof (cases raised)
    case None
    from Cons.IH [of ds' declared'] pre step None show ?thesis by auto
  next
    case (Some e)
    with pre step show ?thesis by auto
  qed
qed

lemma matchSubStackParameters_appends:
  "\<exists>extra. fst (matchSubStackParameters fullText subStackRefs properties templateUrl ds) = ds @ extra"
proof -
  have loop: "\<exists>extra. ds' = ds @ extra"
    if "forEach (checkSuppliedParameter fullText) its (ds, declared) = ((ds', remaining), raised)"
    for its declared ds' remaining raised
    using supplied_loop_appends [of fullText its ds declared] that by simp
  show ?thesis
    unfolding matchSubStackParameters_def
    by (auto simp: missing_fold split: option.splits Node.splits prod.splits sum.splits
          dest!: loop)
qed

lemma checkSubStackNodePair_appends:
  "\<exists>extra. fst (checkSubStackNodePair fullText subStackRefs ds subStackNodePair) = ds @ extra"
  using matchSubStackParameters_appends
  by (auto simp: checkSubStackNodePair_def split: option.splits sum.splits Got.splits)

lemma buildInvalidSubStackParameterDiagnostics_appends:
  "\<exists>extra. fst (buildInvalidSubStackParameterDiagnostics fullText subStackRefs pairs ds) = ds @ extra"
  unfolding buildInvalidSubStackParameterDiagnostics_def
proof (induction pairs arbitrary: ds)
  case Nil
  show ?case by simp
next
  case (Cons p pairs)
  obtain ds' raised where
    step: "checkSubStackNodePair fullText subStackRefs ds p = (ds', raised)"
    by (metis surj_pair)
  with checkSubStackNodePair_appends [of fullText subStackRefs ds p]
  have pre: "\<exists>extra. ds' = ds @ extra" by simp
  show ?case
  proof (cases raised)
    case None
    from Cons.IH [of ds'] pre step None show ?thesis by auto
  next
    case (Some e)
    with pre step show ?thesis by auto
  qed
qed


text \<open>
  A traversal that does not raise returns the References of every plain or double-quoted
  scalar it reaches.
\<close>

lemma flattenResults_member:
  "flattenResults rs = Inr ys \<Longrightarrow> res \<in> set rs \<Longrightarrow> \<exists>xs. res = Inr xs \<and> set xs \<subseteq> set ys"
proof (induction rs arbitrary: ys rule: flattenResults.induct)
  case 1
  then show ?case by simp
next
  case (2 e rs)
  then show ?case by simp
next
  case (3 xs rs)
  from "3.prems"(1) obtain zs where zs: "flattenResults rs = Inr zs" and ys: "ys = xs @ zs"
    by (auto split: sum.splits)
  from "3.prems"(2) consider "res = Inr xs" | "res \<in> set rs" by auto
  then show ?case
  proof cases
    case 1
    with ys show ?thesis by auto
  next
    case 2
    from "3.IH" [OF zs 2] ys show ?thesis by auto
  qed
qed

lemma reaches_references:
  assumes "reaches node target"
    and "target = Scalar ty tg sk r v"
    and "ty = PLAIN \<or> ty = QUOTE_DOUBLE"
    and "getSubNodesWhichReference node = Inr nodes"
  shows "set (inspectScalar ty tg sk r v) \<subseteq> set nodes"
  using assms
proof (induction arbitrary: nodes rule: reaches.induct)
  case (scalar node ty' tg' sk' r' v')
  then show ?case
    by (subst (asm) getSubNodesWhichReference.simps) auto
next
  case (mapItem node ctg cr its item target)
  from mapItem.hyps(1) mapItem.prems(3)
  have "flattenResults (map (\<lambda>item. getSubNodesWhichReference (setTagIfUnset ctg item)) its)
      = Inr nodes"
    by (subst (asm) getSubNodesWhichReference.simps) simp
  moreover have "getSubNodesWhichReference (setTagIfUnset ctg item)
      \<in> set (map (\<lambda>item. getSubNodesWhichReference (setTagIfUnset ctg item)) its)"
    using mapItem.hyps(2) by simp
  ultimately obtain xs where
    "getSubNodesWhichReference (setTagIfUnset ctg item) = Inr xs" "set xs \<subseteq> set nodes"
    using flattenResults_member by blast
  with mapItem.IH [OF mapItem.prems(1,2)] show ?case by blast
next
  case (firstOfSequence node ctg cr firstSubNode rest target)
  from firstOfSequence.hyps(1) firstOfSequence.prems(3)
  have "flattenResults (getSubNodesWhichReference (setTagIfUnset ctg firstSubNode)
          # map getSubNodesWhichReference rest) = Inr nodes"
    by (subst (asm) getSubNodesWhichReference.simps) simp
  moreover have "getSubNodesWhichReference (setTagIfUnset ctg firstSubNode)
      \<in> set (getSubNodesWhichReference (setTagIfUnset ctg firstSubNode)
          # map getSubNodesWhichReference rest)" by simp
  ultimately obtain xs where
    "getSubNodesWhichReference (setTagIfUnset ctg firstSubNode) = Inr xs" "set xs \<subseteq> set nodes"
    using flattenResults_member by blast
  with firstOfSequence.IH [OF firstOfSequence.prems(1,2)] show ?case by blast
next
  case (restOfSequence node ctg cr firstSubNode rest item target)
  from restOfSequence.hyps(1) restOfSequence.prems(3)
  have "flattenResults (getSubNodesWhichReference (setTagIfUnset ctg firstSubNode)
          # map getSubNodesWhichReference rest) = Inr nodes"
    by (subst (asm) getSubNodesWhichReference.simps) simp
  moreover have "getSubNodesWhichReference item
      \<in> set (getSubNodesWhichReference (setTagIfUnset ctg firstSubNode)
          # map getSubNodesWhichReference rest)"
    using restOfSequence.hyps(2) by simp
  ultimately obtain xs where
    "getSubNodesWhichReference item = Inr xs" "set xs \<subseteq> set nodes"
    using flattenResults_member by blast
  with restOfSequence.IH [OF restOfSequence.prems(1,2)] show ?case by blast
qed


text \<open>
  C10 (amended). The pseudo-parameter exclusion is made for \<open>!Ref\<close> scalars only: a
  \<open>!Ref\<close> scalar whose value begins with \<open>AWS::\<close> yields no Reference, while a placeholder
  of a plain or double-quoted \<open>!Sub\<close> scalar is extracted as a Sub Reference at its offset
  whatever its inner text begins with, provided every \<open>${\<close> before it in the value is
  closed. For every document that holds such a scalar under \<open>Resources\<close> or \<open>Outputs\<close> in
  a place the traversal goes to, when the collection of the referenceables and the
  traversal do not raise, every extracted Reference lies behind the first line of the
  text, and the inner text is no local name: the Reference is among the extracted
  References of the document, and the diagnostic list of the pass holds the "unable to
  find referenced variable" Error for the placeholder, at the position of its inner text.
\<close>

theorem sub_placeholder_pseudo_parameter_reported:
  assumes "ty = PLAIN \<or> ty = QUOTE_DOUBLE"
    and "CHR ''}'' \<notin> set key"
    and "closedBefore pre"
    and "sectionKey = ''Resources'' \<or> sectionKey = ''Outputs''"
    and "documentGet document sectionKey = Nd root"
    and "reaches root (Scalar ty (Some ''!Sub'') sk r (pre @ ''${'' @ key @ ''}'' @ post))"
    and "getNodesWhichReference document = Inr nodesWhichReference"
    and "getReferenceables fs rootFilePath fullText document [] = (ds, Inr referenceables)"
    and "\<forall>reference\<in>set (concat nodesWhichReference).
           behindFirstLine fullText (absoluteKeyPosition reference)"
    and "Some key \<notin> set (conditions referenceables @ mappings referenceables
                          @ parameters referenceables @ resources referenceables)"
  shows "getSubNodesWhichReference (Scalar ty' (Some ''!Ref'') sk' r' (''AWS::'' @ name)) = Inr []
       \<and> \<lparr>rtype = SUB, referencedKey = key,
            absoluteKeyPosition = r + 5 + nodeTypeToSubOffset ty + 2 + length pre\<rparr>
           \<in> set (concat nodesWhichReference)
       \<and> (\<exists>position.
             getRowColumnPosition fullText (r + 5 + nodeTypeToSubOffset ty + 2 + length pre)
               = Inr position
           \<and> createDiagnostic position (length key) Error
                 (''Unable to find referenced variable, '' @ quoted key)
               \<in> set (checkYaml fs rootFilePath fullText document))"
proof -
  let ?reference = "\<lparr>rtype = SUB, referencedKey = key,
            absoluteKeyPosition = r + 5 + nodeTypeToSubOffset ty + 2 + length pre\<rparr>"
  let ?v = "pre @ ''${'' @ key @ ''}'' @ post"
  have ref: "getSubNodesWhichReference (Scalar ty' (Some ''!Ref'') sk' r' (''AWS::'' @ name))
      = Inr []"
    by (simp add: getSub_Scalar inspectScalar_def orElse_def truthy_def)
  have "take 1 (''${'' @ key @ ''}'' @ post) \<noteq> ''{''" by simp
  then have "subMatches 0 ?v
      = subMatches 0 pre @ subMatches (0 + length pre) (''${'' @ key @ ''}'' @ post)"
    by (rule subMatches_append [OF assms(3)])
  also have "subMatches (0 + length pre) (''${'' @ key @ ''}'' @ post)
      = (0 + length pre, ''${'' @ key @ ''}'')
          # subMatches (0 + length pre + length key + 3) post"
    by (rule subMatches_placeholder [OF assms(2)])
  finally have found: "(length pre, ''${'' @ key @ ''}'') \<in> set (subMatches 0 ?v)"
    by simp
  let ?references = "map (\<lambda>(index, m).
              \<lparr>rtype = SUB, referencedKey = stripBraces m,
               absoluteKeyPosition = r + 5 + nodeTypeToSubOffset ty + 2 + index\<rparr>)
           (subMatches 0 ?v)"
  have "orElse (Some ''!Sub'') sk = Some ''!Sub''" by (simp add: orElse_def truthy_def)
  then have inspected: "inspectScalar ty (Some ''!Sub'') sk r ?v = [?references]"
    by (simp add: inspectScalar_def)
  have "stripBraces (''${'' @ key @ ''}'') = key" by (simp add: stripBraces_def)
  with found have extracted: "?reference \<in> set ?references" by force
  have "subNodesWhichReference (documentGet document sectionKey)
      \<in> set [subNodesWhichReference (documentGet document ''Resources''),
              subNodesWhichReference (documentGet document ''Outputs'')]"
    using assms(4) by auto
  with assms(7) obtain xs where
    "subNodesWhichReference (documentGet document sectionKey) = Inr xs"
    and sub: "set xs \<subseteq> set nodesWhichReference"
    unfolding getNodesWhichReference_def using flattenResults_member by blast
  then have "getSubNodesWhichReference root = Inr xs" using assms(5) by simp
  with reaches_references [OF assms(6) refl assms(1)] inspected
  have "?references \<in> set xs" by simp
  with sub have "?references \<in> set nodesWhichReference" by blast
  with extracted have member: "?reference \<in> set (concat nodesWhichReference)"
    unfolding set_concat by blast
  with assms(9) have "behindFirstLine fullText (absoluteKeyPosition ?reference)" by blast
  then obtain position where position:
    "getRowColumnPosition fullText (r + 5 + nodeTypeToSubOffset ty + 2 + length pre)
       = Inr position"
    using getRowColumnPosition_returns by fastforce
  let ?d = "createDiagnostic position (length key) Error
              (''Unable to find referenced variable, '' @ quoted key)"
  define ds' where "ds' = ds @ map (\<lambda>reference.
                  createDiagnostic
                    (projr (getRowColumnPosition fullText (absoluteKeyPosition reference)))
                    (length (referencedKey reference)) Error
                    (''Unable to find referenced variable, '' @ quoted (referencedKey reference)))
             (filter (unresolved referenceables) (concat nodesWhichReference))"
  have located: "takeWhile (\<lambda>reference. behindFirstLine fullText (absoluteKeyPosition reference))
      (concat nodesWhichReference) = concat nodesWhichReference"
    using assms(9) by (simp add: takeWhile_eq_all_conv)
  have resolved:
    "buildInvalidReferenceDiagnostics fullText referenceables nodesWhichReference ds
       = (ds', None)"
    unfolding reference_resolution located ds'_def using assms(9) by simp
  have "unresolved referenceables ?reference"
    using assms(10) by (simp add: unresolved_def)
  with member have in_ds': "?d \<in> set ds'"
    unfolding ds'_def using position by force
  have "?d \<in> set (checkYaml fs rootFilePath fullText document)"
  proof (cases "findSubStackNodePairs document")
    case (Inl e)
    with in_ds' show ?thesis
      by (simp add: checkYaml_def assms(7,8) resolved)
  next
    case (Inr pairs)
    from buildInvalidSubStackParameterDiagnostics_appends
      [of fullText "subStackReferenceables referenceables" pairs ds']
    obtain extra where
      "fst (buildInvalidSubStackParameterDiagnostics fullText
              (subStackReferenceables referenceables) pairs ds') = ds' @ extra"
      by blast
    with in_ds' Inr show ?thesis
      by (simp add: checkYaml_def assms(7,8) resolved)
  qed
  with ref member position show ?thesis by blast
qed

text \<open>
  An output whose value is the double-quoted \<open>!Sub "${AWS::Region}"\<close>: the pass reports
  \<open>AWS::Region\<close>.
\<close>

theorem sub_placeholder_pseudo_parameter_reported_witness:
  "\<lparr>startLine = 2, startColumn = 19, endLine = 2, endColumn = 30, severity = Error,
     message = ''Unable to find referenced variable, '' @ quoted ''AWS::Region''\<rparr>
   \<in> set (checkYaml (\<lambda>path. Inl ''{}'') ''/templates/region.yaml''
        (''Outputs:'' @ [CHR 0x0A]
         @ ''  Region:'' @ [CHR 0x0A]
         @ ''    Value: !Sub \"${AWS::Region}\"'' @ [CHR 0x0A])
        \<lparr>contents = Some
           (Collection MAP mapTag 0
            [Pair None ''Outputs'' 0
                (Some (Collection MAP mapTag 11
                   [Pair None ''Region'' 11
                       (Some (Collection MAP mapTag 23
                          [Pair None ''Value'' 23
                              (Some (Scalar QUOTE_DOUBLE (Some ''!Sub'') None 30 ''${AWS::Region}''))]))]))]),
         errors = []\<rparr>)"
proof -
  let ?fs = "\<lambda>path :: string. Inl ''{}'' :: string + Document"
  let ?text = "''Outputs:'' @ [CHR 0x0A]
         @ ''  Region:'' @ [CHR 0x0A]
         @ ''    Value: !Sub \"${AWS::Region}\"'' @ [CHR 0x0A]"
  let ?scalar = "Scalar QUOTE_DOUBLE (Some ''!Sub'') None 30 ''${AWS::Region}''"
  let ?valuePair = "Pair None ''Value'' 23 (Some ?scalar)"
  let ?regionPair = "Pair None ''Region'' 11 (Some (Collection MAP mapTag 23 [?valuePair]))"
  let ?outputs = "Collection MAP mapTag 11 [?regionPair]"
  let ?document = "\<lparr>contents = Some (Collection MAP mapTag 0
                      [Pair None ''Outputs'' 0 (Some ?outputs)]),
                   errors = []\<rparr>"
  let ?referenceables = "\<lparr>parameters = [], resources = [], mappings = [], conditions = [],
      subStackReferenceables = \<lparr>outputs = [], parametersByUrl = Map.empty\<rparr>\<rparr>"
  let ?reference = "\<lparr>rtype = SUB, referencedKey = ''AWS::Region'', absoluteKeyPosition = 38\<rparr>"
  let ?target = "Scalar QUOTE_DOUBLE (Some ''!Sub'') (Some ''Value'') 30
                   ([] @ ''${'' @ ''AWS::Region'' @ ''}'' @ [])"
  have h1: "QUOTE_DOUBLE = PLAIN \<or> QUOTE_DOUBLE = QUOTE_DOUBLE" by simp
  have h2: "CHR ''}'' \<notin> set ''AWS::Region''" by simp
  have h3: "closedBefore []" by simp
  have h4: "''Outputs'' = ''Resources'' \<or> ''Outputs'' = ''Outputs''" by simp
  have h5: "documentGet ?document ''Outputs'' = Nd ?outputs"
    by (simp add: documentGet_def)
  have atValue: "reaches (setTagIfUnset mapTag ?valuePair) ?target"
    by (rule reaches.scalar) (simp add: truthy_def)
  have atRegion: "reaches (setTagIfUnset mapTag ?regionPair) ?target"
  proof (rule reaches.mapItem [where tg = mapTag and r = 23 and its = "[?valuePair]"
                                 and item = ?valuePair])
    show "getNodeValueIfPair (setTagIfUnset mapTag ?regionPair)
        = Some (Collection MAP mapTag 23 [?valuePair])"
      by (simp add: truthy_def)
    show "?valuePair \<in> set [?valuePair]" by simp
    show "reaches (setTagIfUnset mapTag ?valuePair) ?target" by (rule atValue)
  qed
  have h6: "reaches ?outputs ?target"
  proof (rule reaches.mapItem [where tg = mapTag and r = 11 and its = "[?regionPair]"
                                 and item = ?regionPair])
    show "getNodeValueIfPair ?outputs = Some (Collection MAP mapTag 11 [?regionPair])" by simp
    show "?regionPair \<in> set [?regionPair]" by simp
    show "reaches (setTagIfUnset mapTag ?regionPair) ?target" by (rule atRegion)
  qed
  have h7: "getNodesWhichReference ?document = Inr [[?reference]]"
    by (simp add: getNodesWhichReference_def documentGet_def getSub_Collection getSub_Pair
          getSub_Scalar inspectScalar_def orElse_def truthy_def stripBraces_def Let_def)
  have h8: "getReferenceables ?fs ''/templates/region.yaml'' ?text ?document []
      = ([], Inr ?referenceables)"
    by (simp add: getReferenceables_def findSubStackNodePairs_def getSubStackReferenceables_def)
  have h9: "\<forall>reference\<in>set (concat [[?reference]]).
      behindFirstLine ?text (absoluteKeyPosition reference)"
    by (simp add: behindFirstLine_def)
  have h10: "Some ''AWS::Region''
      \<notin> set (conditions ?referenceables @ mappings ?referenceables
              @ parameters ?referenceables @ resources ?referenceables)" by simp
  have pos: "getRowColumnPosition ?text 38 = Inr \<lparr>line = 2, column = 19\<rparr>"
    by (simp add: getRowColumnPosition_def)
  from sub_placeholder_pseudo_parameter_reported [OF h1 h2 h3 h4 h5 h6 h7 h8 h9 h10]
  have "\<exists>position. getRowColumnPosition ?text 38 = Inr position
      \<and> createDiagnostic position (length ''AWS::Region'') Error
           (''Unable to find referenced variable, '' @ quoted ''AWS::Region'')
         \<in> set (checkYaml ?fs ''/templates/region.yaml'' ?text ?document)"
    by simp
  with pos show ?thesis by (auto simp: createDiagnostic_def)
qed

text \<open>
  C10 as stated covers every document that contains such a placeholder. In a
  single-quoted \<open>!Sub\<close> scalar the placeholder is not extracted (only plain and
  double-quoted scalars are inspected, line 298), and the pass over the same document with
  single quotes leaves no diagnostic.
\<close>

theorem sub_placeholder_single_quoted_counterexample:
  "subMatches 0 ''${AWS::Region}'' = [(0, ''${AWS::Region}'')]
   \<and> checkYaml (\<lambda>path. Inl ''{}'') ''/templates/region.yaml''
        (''Outputs:'' @ [CHR 0x0A]
         @ ''  Region:'' @ [CHR 0x0A]
         @ ''    Value: !Sub '' @ [CHR 0x27] @ ''${AWS::Region}'' @ [CHR 0x27] @ [CHR 0x0A])
        \<lparr>contents = Some
           (Collection MAP mapTag 0
            [Pair None ''Outputs'' 0
                (Some (Collection MAP mapTag 11
                   [Pair None ''Region'' 11
                       (Some (Collection MAP mapTag 23
                          [Pair None ''Value'' 23
                              (Some (Scalar QUOTE_SINGLE (Some ''!Sub'') None 30 ''${AWS::Region}''))]))]))]),
         errors = []\<rparr>
     = []"
  by (simp add: eval_defs)

section \<open>A whole pass\<close>

text \<open>
  The scenario of the specification: \<open>X: !Ref B\<close> in a template that declares no \<open>B\<close>
  gets one Error, on line 3 at the span of \<open>B\<close>.
\<close>

lemma undeclared_ref_example:
  "checkYaml (\<lambda>path. Inl ''{}'') ''/templates/a.yaml''
     (''Resources:'' @ [CHR 0x0A]
      @ ''  A:'' @ [CHR 0x0A]
      @ ''    Properties:'' @ [CHR 0x0A]
      @ ''      X: !Ref B'' @ [CHR 0x0A])
     \<lparr>contents = Some
        (Collection MAP mapTag 0
         [Pair None ''Resources'' 0
             (Some (Collection MAP mapTag 13
                [Pair None ''A'' 13
                    (Some (Collection MAP mapTag 20
                       [Pair None ''Properties'' 20
                           (Some (Collection MAP mapTag 38
                              [Pair None ''X'' 38
                                  (Some (Scalar PLAIN (Some ''!Ref'') None 41 ''B''))]))]))]))]),
      errors = []\<rparr>
   = [\<lparr>startLine = 3, startColumn = 14, endLine = 3, endColumn = 15, severity = Error,
       message = ''Unable to find referenced variable, '' @ quoted ''B''\<rparr>]"
  by (simp add: eval_defs)

end
